theory Spec2Isabelle
  imports Main "HOL-Library.Word"
begin

unbundle bit_operations_syntax

section \<open>Data model\<close>

text \<open>
  The control-sequence engine of \<^verbatim>\<open>src/terminal/Sequencer.cpp\<close>. The screen is an
  external collaborator that the engine only calls into: it is modelled as the list of
  the calls it has received, oldest first. The declarations of \<^verbatim>\<open>Sequencer.h\<close>,
  \<^verbatim>\<open>Functions.h\<close>, \<^verbatim>\<open>Screen.h\<close> and the \<^verbatim>\<open>crispy\<close> helpers are not part of the
  sources at hand; what the code needs of them is either taken as a parameter
  (record \<open>Externals\<close>) or modelled from the specification, and marked so.
\<close>

datatype FunctionCategory = C0 | ESC | CSI | OSC | DCS

text \<open>
  Modelled from the spec: the type \<^verbatim>\<open>Sequence::Parameter\<close> is declared in
  \<^verbatim>\<open>Sequencer.h\<close>; the specification says parameters are non-negative integers of a
  32-bit range, so the type is a 32-bit unsigned machine integer.
\<close>

type_synonym Parameter = "32 word"

text \<open>
  Modelled from the spec: \<^verbatim>\<open>Sequence::MaxParameters\<close> is declared in
  \<^verbatim>\<open>Sequencer.h\<close>; the specification gives the bound 16.
\<close>

definition MaxParameters :: nat where
  "MaxParameters = 16"

text \<open>The fields of class \<^verbatim>\<open>Sequence\<close>; a leader or final char of 0 means none.\<close>

record Sequence =
  category :: FunctionCategory
  leaderSymbol :: char
  parameters :: "Parameter list list"
  intermediateCharacters :: string
  finalChar :: char
  dataString :: string

text \<open>
  Modelled from the spec: \<^verbatim>\<open>Sequence::clear\<close> is defined in \<^verbatim>\<open>Sequencer.h\<close>. A
  freshly cleared Sequence has empty parameters, intermediates and data string, no
  leader and final char 0.
\<close>

definition Sequence_clear :: "Sequence \<Rightarrow> Sequence" where
  "Sequence_clear s =
     s\<lparr>leaderSymbol := CHR 0x00, parameters := [], intermediateCharacters := [],
       finalChar := CHR 0x00, dataString := []\<rparr>"

text \<open>
  Modelled from the spec: the accessors of \<^verbatim>\<open>Sequence\<close> are defined in
  \<^verbatim>\<open>Sequencer.h\<close>. \<open>param i\<close> is the primary value of group \<open>i\<close> and 0 for an absent
  group; \<open>param_or i d\<close> is \<open>d\<close> when the group is absent or its value is 0;
  \<open>subparam i k\<close> is the \<open>k\<close>-th sub-value of group \<open>i\<close>, the values after the primary
  one, and 0 when absent (so that in \<^verbatim>\<open>38:2:10:20:30\<close> the group has four
  sub-parameters and \<open>subparam i 0 = 2\<close>, as \<^verbatim>\<open>impl::parseColor\<close> reads it);
  \<open>containsParameter v\<close> holds iff some group's primary value is \<open>v\<close>.
\<close>

definition parameterCount :: "Sequence \<Rightarrow> nat" where
  "parameterCount s = length (parameters s)"

definition seq_param :: "Sequence \<Rightarrow> nat \<Rightarrow> Parameter" where
  "seq_param s i =
     (if i < length (parameters s)
      then (case parameters s ! i of [] \<Rightarrow> 0 | v # _ \<Rightarrow> v)
      else 0)"

definition param_or :: "Sequence \<Rightarrow> nat \<Rightarrow> Parameter \<Rightarrow> Parameter" where
  "param_or s i d = (if seq_param s i = 0 then d else seq_param s i)"

definition subParameterCount :: "Sequence \<Rightarrow> nat \<Rightarrow> nat" where
  "subParameterCount s i =
     (if i < length (parameters s) then length (parameters s ! i) - 1 else 0)"

definition subparam :: "Sequence \<Rightarrow> nat \<Rightarrow> nat \<Rightarrow> Parameter" where
  "subparam s i k =
     (if i < length (parameters s) \<and> k + 1 < length (parameters s ! i)
      then parameters s ! i ! (k + 1)
      else 0)"

definition containsParameter :: "Sequence \<Rightarrow> Parameter \<Rightarrow> bool" where
  "containsParameter s v = list_ex (\<lambda>g. (case g of [] \<Rightarrow> 0 | x # _ \<Rightarrow> x) = v) (parameters s)"

subsection \<open>The function identities\<close>

text \<open>
  The identities that \<^verbatim>\<open>Sequencer::apply\<close> and \<^verbatim>\<open>Sequencer::hook\<close> switch on, in the
  order of the source (C0, ESC, CSI, OSC, DCS). The table that defines them
  (\<^verbatim>\<open>Functions.h\<close>) is not at hand; \<open>OtherFunction\<close> stands for every identity of the
  table that the switch of \<^verbatim>\<open>apply\<close> does not name.
\<close>

datatype (plugins del: code "quickcheck" size transfer lifting) FunctionDefinition =
    BEL | BS | TAB | LF | VT | FF | CR
  | SCS_G0_SPECIAL | SCS_G0_USASCII | SCS_G1_SPECIAL | SCS_G1_USASCII
  | DECALN | DECBI | DECFI | DECKPAM | DECKPNM | DECRS | DECSC | HTS | IND | NEL | RI | RIS
  | SS2 | SS3
  | ANSISYSSC | CBT | CHA | CHT | CNL | CPL | CPR | CUB | CUD | CUF | CUP | CUU | DA1 | DA2 | DA3
  | DCH | DECDC | DECIC | DECRM | DECRQM | DECRQM_ANSI | DECRQPSR | DECSCUSR | DECSCPP | DECSLRM
  | DECSM | DECSTBM | DECSTR | DECXCPR | DL | ECH | ED | EL | HPA | HPR | HVP | ICH | IL | RM
  | SCOSC | SD | SETMARK | SGR | SM | SU | TBC | VPA | WINMANIP | DECMODERESTORE | DECMODESAVE
  | XTSMGRAPHICS
  | SETTITLE | SETICON | SETWINTITLE | SETXPROP | HYPERLINK | COLORFG | COLORBG | COLORCURSOR
  | COLORMOUSEFG | COLORMOUSEBG | CLIPBOARD | RCOLORFG | RCOLORBG | RCOLORCURSOR | RCOLORMOUSEFG
  | RCOLORMOUSEBG | RCOLORHIGHLIGHTFG | RCOLORHIGHLIGHTBG | NOTIFY | DUMPSTATE
  | DECSIXEL | DECRQSS | OtherFunction nat

datatype ApplyResult = Ok | Invalid | Unsupported

subsection \<open>The screen, as the calls it receives\<close>

datatype Mode =
    KeyboardAction | Insert | SendReceive | AutomaticNewLine
  | UseApplicationCursorKeys | DesignateCharsetUSASCII | Columns132 | SmoothScroll
  | ReverseVideo | MouseProtocolX10 | MouseProtocolNormalTracking
  | MouseProtocolHighlightTracking | MouseProtocolButtonTracking
  | MouseProtocolAnyEventTracking | SaveCursor | ExtendedAltScreen | Origin | AutoWrap
  | PrinterExtend | LeftRightMargin | ShowToolbar | BlinkingCursor | VisibleCursor
  | ShowScrollbar | AllowColumns80to132 | UseAlternateScreen | BracketedPaste | FocusTracking
  | SixelScrolling | UsePrivateColorRegisters | MouseExtended | MouseSGR | MouseURXVT
  | MouseAlternateScroll | BatchedRendering

datatype GraphicsRendition =
    Reset | Bold | Faint | Italic | Underline | Blinking | Inverse | Hidden | CrossedOut
  | DoublyUnderlined | CurlyUnderlined | DottedUnderline | DashedUnderline | Framed | Overline
  | Normal | NoItalic | NoUnderline | NoBlinking | NoInverse | NoHidden | NoCrossedOut
  | NoFramed | NoOverline

text \<open>
  \<^verbatim>\<open>Color\<close> is declared outside the sources at hand. \<open>UndefinedColor\<close> is the
  default-constructed \<^verbatim>\<open>Color{}\<close>; \<open>IndexedColor\<close> and \<open>BrightColor\<close> carry the numeric
  value of the enumerator, an 8-bit palette index, with \<^verbatim>\<open>Black\<close> to \<^verbatim>\<open>White\<close> numbered
  0 to 7.
\<close>

datatype Color =
    UndefinedColor
  | DefaultColor
  | IndexedColor "8 word"
  | BrightColor "8 word"
  | RGBColor "8 word" "8 word" "8 word"

datatype DynamicColorName =
    DefaultForegroundColor | DefaultBackgroundColor | TextCursorColor | MouseForegroundColor
  | MouseBackgroundColor | HighlightForegroundColor | HighlightBackgroundColor

datatype CharsetTable = G0 | G1 | G2 | G3
datatype CharsetId = Special | USASCII
datatype CursorDisplay = Steady | Blink
datatype CursorShape = Block | Rectangle | Underscore | Bar
datatype HorizontalTabClear = AllTabs | UnderCursor
datatype RequestPixelSizeArea = TextArea
datatype Coordinate = Coordinate Parameter Parameter
datatype Size = Size Parameter Parameter

datatype XtSmGraphicsItem =
  NumberOfColorRegisters | SixelGraphicsGeometry | ReGISGraphicsGeometry
datatype XtSmGraphicsAction = Read | ResetToDefault | SetToValue | ReadLimit
datatype XtSmGraphicsValue = Monostate | ValueNumber Parameter | ValueSize Size

text \<open>The enumerators of \<^verbatim>\<open>RequestStatusString::Value\<close>, prefixed to keep them apart
  from the function identities of the same names.\<close>

datatype RequestStatusStringValue =
    RSS_SGR | RSS_DECSCL | RSS_DECSCUSR | RSS_DECSCA | RSS_DECSTBM | RSS_DECSLRM
  | RSS_DECSLPP | RSS_DECSCPP | RSS_DECSNLS

text \<open>
  One constructor for each member function of the screen (and of its event listener)
  that the engine calls, with the arguments of the call.
\<close>

datatype (plugins del: code "quickcheck" size transfer lifting) ScreenCall =
    writeText nat
  | eventListener_bell
  | eventListener_copyToClipboard string
  | eventListener_resizeWindow Parameter Parameter bool
  | backspace | moveCursorToNextTab | linefeed | index | moveCursorToBeginOfLine
  | saveCursor | restoreCursor
  | designateCharset CharsetTable CharsetId
  | screenAlignmentPattern | backIndex | forwardIndex
  | applicationKeypadMode bool
  | horizontalTabSet
  | moveCursorToNextLine Parameter
  | reverseIndex | resetHard
  | singleShiftSelect CharsetTable
  | cursorBackwardTab Parameter
  | moveCursorToColumn Parameter
  | cursorForwardTab Parameter
  | moveCursorToPrevLine Parameter
  | deviceStatusReport | reportCursorPosition
  | moveCursorBackward Parameter
  | moveCursorDown Parameter
  | moveCursorForward Parameter
  | moveCursorTo Coordinate
  | moveCursorUp Parameter
  | sendDeviceAttributes | sendTerminalId
  | deleteCharacters Parameter
  | deleteColumns Parameter
  | insertColumns Parameter
  | setMode Mode bool
  | requestTabStops
  | setCursorStyle CursorDisplay CursorShape
  | resizeColumns Parameter bool
  | setLeftRightMargin "Parameter option" "Parameter option"
  | setTopBottomMargin "Parameter option" "Parameter option"
  | resetSoft | reportExtendedCursorPosition
  | deleteLines Parameter
  | eraseCharacters Parameter
  | clearToEndOfScreen | clearToBeginOfScreen | clearScreen | clearScrollbackBuffer
  | clearToEndOfLine | clearToBeginOfLine | clearLine
  | insertCharacters Parameter
  | insertLines Parameter
  | scrollDown Parameter
  | setMark
  | setGraphicsRendition GraphicsRendition
  | setForegroundColor Color
  | setBackgroundColor Color
  | setUnderlineColor Color
  | scrollUp Parameter
  | horizontalTabClear HorizontalTabClear
  | moveCursorToLine Parameter
  | saveWindowTitle | restoreWindowTitle
  | requestPixelSize RequestPixelSizeArea
  | saveModes "Mode list"
  | restoreModes "Mode list"
  | smGraphics XtSmGraphicsItem XtSmGraphicsAction XtSmGraphicsValue
  | setWindowTitle string
  | hyperlink string string
  | requestDynamicColor DynamicColorName
  | setDynamicColor DynamicColorName Color
  | resetDynamicColor DynamicColorName
  | notify string string
  | dumpState
  | requestStatusString RequestStatusStringValue
  | sixelImage Size "8 word list"
  | verifyState

type_synonym Screen = "ScreenCall list"

text \<open>A call on the screen appends to the calls received so far.\<close>

definition call :: "ScreenCall \<Rightarrow> Screen \<Rightarrow> Screen" where
  "call c scr = scr @ [c]"

subsection \<open>The sequencer\<close>

record SixelImage =
  image_size :: Size
  rgba :: "8 word list"

text \<open>The batch queue holds print characters, completed sequences and sixel images
  (\<^verbatim>\<open>std::variant<char32_t, Sequence, SixelImage>\<close>).\<close>

datatype Batchable =
    BatchedChar nat
  | BatchedSequence Sequence
  | BatchedImage SixelImage

text \<open>What the engine writes to its logger and to the error stream.\<close>

datatype LogEvent =
    UnsupportedOutputEvent char
  | UnknownVTSequence Sequence

text \<open>
  The members of \<^verbatim>\<open>Sequencer\<close> that the functions below read or write; \<open>screen\<close> is
  the screen behind the reference \<^verbatim>\<open>screen_\<close>.
\<close>

record Sequencer =
  sequence :: Sequence
  batching :: bool
  batchedSequences :: "Batchable list"
  instructionCounter :: int
  screen :: Screen
  logged :: "LogEvent list"

text \<open>
  The functions that the code calls and that are not defined in the sources at hand,
  as parameters:
  \<^item> \<open>functionDefinition\<close>: \<^verbatim>\<open>Sequence::functionDefinition()\<close>, the lookup of a sequence in
    the function table, \<open>None\<close> for \<^verbatim>\<open>nullptr\<close>;
  \<^item> \<open>isBatchable\<close>: the flag of a function identity;
  \<^item> \<open>param_opt\<close>: \<^verbatim>\<open>Sequence::param_opt\<close>;
  \<^item> \<open>strntoul\<close>: \<^verbatim>\<open>crispy::strntoul(data, count, nullptr, base)\<close> on the bytes from
    \<open>data\<close> on, \<open>None\<close> when it throws;
  \<^item> \<open>split\<close>, \<open>splitKeyValuePairs\<close>: the \<^verbatim>\<open>crispy\<close> string helpers;
  \<^item> \<open>base64_decode\<close>: \<^verbatim>\<open>crispy::base64::decode\<close>.
\<close>

record Externals =
  functionDefinition :: "Sequence \<Rightarrow> FunctionDefinition option"
  isBatchable :: "FunctionDefinition \<Rightarrow> bool"
  param_opt :: "Sequence \<Rightarrow> nat \<Rightarrow> Parameter option"
  strntoul :: "string \<Rightarrow> nat \<Rightarrow> nat \<Rightarrow> 64 word option"
  split :: "string \<Rightarrow> char \<Rightarrow> string list"
  splitKeyValuePairs :: "string \<Rightarrow> char \<Rightarrow> (string \<times> string) list"
  base64_decode :: "string \<Rightarrow> string"

section \<open>Assembling a sequence\<close>

text \<open>
  \<^verbatim>\<open>Sequencer::clear\<close>, \<^verbatim>\<open>collect\<close>, \<^verbatim>\<open>collectLeader\<close> and \<^verbatim>\<open>param\<close>. In \<open>param\<close>
  the digit is \<^verbatim>\<open>_char - U'0'\<close>, an unsigned 32-bit value, and the sum is stored into
  the last value of the last group; the code does nothing else for a digit. A group
  is never empty when \<open>param\<close> builds the list; for an empty last group, where the
  C++ is undefined, the model leaves the list as it is.
\<close>

definition clear :: "Sequencer \<Rightarrow> Sequencer" where
  "clear st = st\<lparr>sequence := Sequence_clear (sequence st)\<rparr>"

definition collect :: "char \<Rightarrow> Sequencer \<Rightarrow> Sequencer" where
  "collect c st =
     st\<lparr>sequence := (sequence st)\<lparr>intermediateCharacters :=
       intermediateCharacters (sequence st) @ [c]\<rparr>\<rparr>"

definition collectLeader :: "char \<Rightarrow> Sequencer \<Rightarrow> Sequencer" where
  "collectLeader c st = st\<lparr>sequence := (sequence st)\<lparr>leaderSymbol := c\<rparr>\<rparr>"

definition isdigit :: "char \<Rightarrow> bool" where
  "isdigit c = (48 \<le> (of_char c :: nat) \<and> (of_char c :: nat) \<le> 57)"

definition digit_value :: "char \<Rightarrow> Parameter" where
  "digit_value c = of_nat (of_char c) - 48"

definition push_group :: "Parameter list list \<Rightarrow> Parameter list list" where
  "push_group ps = ps @ [[0]]"

definition push_subparam :: "Parameter list list \<Rightarrow> Parameter list list" where
  "push_subparam ps = (if ps = [] then ps else butlast ps @ [last ps @ [0]])"

definition accumulate_digit :: "char \<Rightarrow> Parameter list list \<Rightarrow> Parameter list list" where
  "accumulate_digit c ps =
     (if ps = [] \<or> last ps = [] then ps
      else butlast ps @ [butlast (last ps) @ [last (last ps) * 10 + digit_value c]])"

definition param_step :: "char \<Rightarrow> Parameter list list \<Rightarrow> Parameter list list" where
  "param_step c ps0 =
     (let ps = (if ps0 = [] then push_group ps0 else ps0) in
      if c = CHR '';'' then
        (if length ps < MaxParameters then push_group ps else ps)
      else if c = CHR '':'' then
        (if length (last ps) < MaxParameters then push_subparam ps else ps)
      else if isdigit c then accumulate_digit c ps
      else ps)"

definition param :: "char \<Rightarrow> Sequencer \<Rightarrow> Sequencer" where
  "param c st =
     st\<lparr>sequence := (sequence st)\<lparr>parameters := param_step c (parameters (sequence st))\<rparr>\<rparr>"

text \<open>The producer's calls of \<open>param\<close> for a string of parameter bytes, in order.\<close>

definition params :: "string \<Rightarrow> Sequencer \<Rightarrow> Sequencer" where
  "params cs st = fold param cs st"

section \<open>The dispatcher\<close>

subsection \<open>Modes\<close>

definition setAnsiMode :: "Sequence \<Rightarrow> nat \<Rightarrow> bool \<Rightarrow> Screen \<Rightarrow> ApplyResult \<times> Screen" where
  "setAnsiMode seq modeIndex enable scr =
     (if seq_param seq modeIndex = 2 then (Unsupported, scr)
      else if seq_param seq modeIndex = 4 then (Ok, call (setMode Insert enable) scr)
      else (Unsupported, scr))"

definition DECModes :: "(Parameter \<times> Mode) list" where
  "DECModes =
     [(1, UseApplicationCursorKeys), (2, DesignateCharsetUSASCII), (3, Columns132),
      (4, SmoothScroll), (5, ReverseVideo), (6, Origin), (7, AutoWrap),
      (9, MouseProtocolX10), (10, ShowToolbar), (12, BlinkingCursor), (19, PrinterExtend),
      (25, VisibleCursor), (30, ShowScrollbar), (40, AllowColumns80to132),
      (47, UseAlternateScreen), (69, LeftRightMargin), (80, SixelScrolling),
      (1000, MouseProtocolNormalTracking), (1001, MouseProtocolHighlightTracking),
      (1002, MouseProtocolButtonTracking), (1003, MouseProtocolAnyEventTracking),
      (1004, FocusTracking), (1005, MouseExtended), (1006, MouseSGR),
      (1007, MouseAlternateScroll), (1015, MouseURXVT), (1047, UseAlternateScreen),
      (1048, SaveCursor), (1049, ExtendedAltScreen), (2004, BracketedPaste),
      (2026, BatchedRendering)]"

definition toDECMode :: "Parameter \<Rightarrow> Mode option" where
  "toDECMode v = map_of DECModes v"

definition setModeDEC :: "Sequence \<Rightarrow> nat \<Rightarrow> bool \<Rightarrow> Screen \<Rightarrow> ApplyResult \<times> Screen" where
  "setModeDEC seq modeIndex enable scr =
     (case toDECMode (seq_param seq modeIndex) of
        Some m \<Rightarrow> (Ok, call (setMode m enable) scr)
      | None \<Rightarrow> (Invalid, scr))"

subsection \<open>SGR and its colour arguments\<close>

text \<open>
  \<^verbatim>\<open>impl::parseColor(_seq, pi)\<close>: the result is the colour and the value left in
  \<^verbatim>\<open>*pi\<close>. The first part reads the sub-parameters of group \<open>i\<close>; when it does not
  return, the second part reads the following groups, and in the indexed form it
  compares the index \<open>i\<close>, not the value, with 255 (\<^verbatim>\<open>if (i <= 255)\<close>). The casts to
  \<^verbatim>\<open>uint8_t\<close> and to \<^verbatim>\<open>IndexedColor\<close> keep the low 8 bits.
\<close>

definition parseColor :: "Sequence \<Rightarrow> nat \<Rightarrow> Color \<times> nat" where
  "parseColor seq i =
     (let sub =
        (if subParameterCount seq i \<ge> 1 then
           (if subparam seq i 0 = 2 then
              (if subParameterCount seq i = 4
                  \<and> subparam seq i 1 \<le> 255 \<and> subparam seq i 2 \<le> 255 \<and> subparam seq i 3 \<le> 255
               then Some (RGBColor (ucast (subparam seq i 1)) (ucast (subparam seq i 2))
                                   (ucast (subparam seq i 3)))
               else None)
            else if subparam seq i 0 = 5 then
              (if subparam seq i 1 \<le> 255 then Some (IndexedColor (ucast (subparam seq i 1)))
               else None)
            else None)
         else None)
      in case sub of
        Some c \<Rightarrow> (c, i + 1)
      | None \<Rightarrow>
          (if i + 1 < parameterCount seq then
             (if seq_param seq (i + 1) = 5 then
                (if i + 2 < parameterCount seq then
                   (if i + 2 \<le> 255 then (IndexedColor (ucast (seq_param seq (i + 2))), i + 2)
                    else (UndefinedColor, i + 3))
                 else (UndefinedColor, i + 2))
              else if seq_param seq (i + 1) = 2 then
                (if i + 4 < parameterCount seq then
                   (if seq_param seq (i + 2) \<le> 255 \<and> seq_param seq (i + 3) \<le> 255
                       \<and> seq_param seq (i + 4) \<le> 255
                    then (RGBColor (ucast (seq_param seq (i + 2))) (ucast (seq_param seq (i + 3)))
                                   (ucast (seq_param seq (i + 4))), i + 4)
                    else (UndefinedColor, i + 5))
                 else (UndefinedColor, i + 2))
              else (UndefinedColor, i + 2))
           else (UndefinedColor, i + 1)))"

text \<open>The cases of the switch in \<^verbatim>\<open>impl::dispatchSGR\<close> that make one call with fixed
  arguments; the colours \<^verbatim>\<open>Black\<close> to \<^verbatim>\<open>White\<close> are 0 to 7.\<close>

definition SGR_calls :: "(Parameter \<times> ScreenCall) list" where
  "SGR_calls =
     [(0, setGraphicsRendition Reset), (1, setGraphicsRendition Bold),
      (2, setGraphicsRendition Faint), (3, setGraphicsRendition Italic),
      (5, setGraphicsRendition Blinking), (7, setGraphicsRendition Inverse),
      (8, setGraphicsRendition Hidden), (9, setGraphicsRendition CrossedOut),
      (21, setGraphicsRendition DoublyUnderlined), (22, setGraphicsRendition Normal),
      (23, setGraphicsRendition NoItalic), (24, setGraphicsRendition NoUnderline),
      (25, setGraphicsRendition NoBlinking), (27, setGraphicsRendition NoInverse),
      (28, setGraphicsRendition NoHidden), (29, setGraphicsRendition NoCrossedOut),
      (30, setForegroundColor (IndexedColor 0)), (31, setForegroundColor (IndexedColor 1)),
      (32, setForegroundColor (IndexedColor 2)), (33, setForegroundColor (IndexedColor 3)),
      (34, setForegroundColor (IndexedColor 4)), (35, setForegroundColor (IndexedColor 5)),
      (36, setForegroundColor (IndexedColor 6)), (37, setForegroundColor (IndexedColor 7)),
      (39, setForegroundColor DefaultColor),
      (40, setBackgroundColor (IndexedColor 0)), (41, setBackgroundColor (IndexedColor 1)),
      (42, setBackgroundColor (IndexedColor 2)), (43, setBackgroundColor (IndexedColor 3)),
      (44, setBackgroundColor (IndexedColor 4)), (45, setBackgroundColor (IndexedColor 5)),
      (46, setBackgroundColor (IndexedColor 6)), (47, setBackgroundColor (IndexedColor 7)),
      (49, setBackgroundColor DefaultColor),
      (51, setGraphicsRendition Framed), (53, setGraphicsRendition Overline),
      (54, setGraphicsRendition NoFramed), (55, setGraphicsRendition NoOverline),
      (90, setForegroundColor (BrightColor 0)), (91, setForegroundColor (BrightColor 1)),
      (92, setForegroundColor (BrightColor 2)), (93, setForegroundColor (BrightColor 3)),
      (94, setForegroundColor (BrightColor 4)), (95, setForegroundColor (BrightColor 5)),
      (96, setForegroundColor (BrightColor 6)), (97, setForegroundColor (BrightColor 7)),
      (100, setBackgroundColor (BrightColor 0)), (101, setBackgroundColor (BrightColor 1)),
      (102, setBackgroundColor (BrightColor 2)), (103, setBackgroundColor (BrightColor 3)),
      (104, setBackgroundColor (BrightColor 4)), (105, setBackgroundColor (BrightColor 5)),
      (106, setBackgroundColor (BrightColor 6)), (107, setBackgroundColor (BrightColor 7))]"

definition underlineStyle :: "Parameter \<Rightarrow> GraphicsRendition" where
  "underlineStyle v =
     (if v = 0 then NoUnderline else if v = 1 then Underline
      else if v = 2 then DoublyUnderlined else if v = 3 then CurlyUnderlined
      else if v = 4 then DottedUnderline else if v = 5 then DashedUnderline
      else Underline)"

text \<open>One round of the loop of \<^verbatim>\<open>impl::dispatchSGR\<close> at index \<open>i\<close>: the index as the
  body leaves it (before the loop's \<^verbatim>\<open>++i\<close>) and the screen.\<close>

definition dispatchSGR_body :: "Sequence \<Rightarrow> nat \<Rightarrow> Screen \<Rightarrow> nat \<times> Screen" where
  "dispatchSGR_body seq i scr =
     (let p = seq_param seq i in
      if p = 4 then
        (if subParameterCount seq i = 1
         then (i, call (setGraphicsRendition (underlineStyle (subparam seq i 0))) scr)
         else (i, call (setGraphicsRendition Underline) scr))
      else if p = 38 then
        (case parseColor seq i of (c, j) \<Rightarrow> (j, call (setForegroundColor c) scr))
      else if p = 48 then
        (case parseColor seq i of (c, j) \<Rightarrow> (j, call (setBackgroundColor c) scr))
      else if p = 58 then
        (case parseColor seq i of (c, j) \<Rightarrow> (j, call (setUnderlineColor c) scr))
      else
        (case map_of SGR_calls p of
           Some c \<Rightarrow> (i, call c scr)
         | None \<Rightarrow> (i, scr)))"

lemma parseColor_advances: "i < snd (parseColor seq i)"
  by (simp add: parseColor_def Let_def split: option.split)

lemma dispatchSGR_body_advances: "i \<le> fst (dispatchSGR_body seq i scr)"
  using parseColor_advances [of i seq]
  by (auto simp: dispatchSGR_body_def Let_def split: prod.split option.split)

function dispatchSGR_loop :: "Sequence \<Rightarrow> nat \<Rightarrow> Screen \<Rightarrow> Screen" where
  "dispatchSGR_loop seq i scr =
     (if i < parameterCount seq
      then dispatchSGR_loop seq (Suc (fst (dispatchSGR_body seq i scr)))
             (snd (dispatchSGR_body seq i scr))
      else scr)"
  by pat_completeness auto
termination
proof (relation "measure (\<lambda>(seq, i, scr). parameterCount seq - i)")
  show "wf (measure (\<lambda>(seq, i, scr). parameterCount seq - i))"
    by simp
next
  fix seq :: Sequence and i :: nat and scr :: Screen
  assume "i < parameterCount seq"
  then show "((seq, Suc (fst (dispatchSGR_body seq i scr)), snd (dispatchSGR_body seq i scr)),
              (seq, i, scr)) \<in> measure (\<lambda>(seq, i, scr). parameterCount seq - i)"
    using dispatchSGR_body_advances [of i seq scr] by simp
qed

declare dispatchSGR_loop.simps [simp del]

definition dispatchSGR :: "Sequence \<Rightarrow> Screen \<Rightarrow> ApplyResult \<times> Screen" where
  "dispatchSGR seq scr =
     (if parameterCount seq = 0 then (Ok, call (setGraphicsRendition Reset) scr)
      else (Ok, dispatchSGR_loop seq 0 scr))"

subsection \<open>Requests, erasing, tabs\<close>

definition requestMode :: "Sequence \<Rightarrow> Parameter \<Rightarrow> ApplyResult" where
  "requestMode seq m =
     (if m \<in> set [1, 2, 3, 4, 5, 7, 10, 11, 12, 13, 14, 15, 16, 17, 18, 19, 20]
      then Unsupported else Invalid)"

definition requestModeDEC :: "Sequence \<Rightarrow> Parameter \<Rightarrow> ApplyResult" where
  "requestModeDEC seq m =
     (if m \<in> set [1, 2, 3, 4, 5, 6, 7, 8, 18, 19, 25, 34, 35, 36, 42, 57, 60, 61, 64, 66, 67,
                   68, 69, 73, 81, 95, 96, 97, 98, 99, 100, 101, 102, 103, 104, 106, 2026]
      then Unsupported else Invalid)"

definition impl_CPR :: "Sequence \<Rightarrow> Screen \<Rightarrow> ApplyResult \<times> Screen" where
  "impl_CPR seq scr =
     (if seq_param seq 0 = 5 then (Ok, call deviceStatusReport scr)
      else if seq_param seq 0 = 6 then (Ok, call reportCursorPosition scr)
      else (Unsupported, scr))"

definition impl_DECRQPSR :: "Sequence \<Rightarrow> Screen \<Rightarrow> ApplyResult \<times> Screen" where
  "impl_DECRQPSR seq scr =
     (if parameterCount seq \<noteq> 1 then (Invalid, scr)
      else if seq_param seq 0 = 1 then (Invalid, scr)
      else if seq_param seq 0 = 2 then (Ok, call requestTabStops scr)
      else (Invalid, scr))"

definition cursorStyles :: "(Parameter \<times> CursorDisplay \<times> CursorShape) list" where
  "cursorStyles =
     [(0, Blink, Block), (1, Blink, Block), (2, Steady, Block), (3, Blink, Underscore),
      (4, Steady, Underscore), (5, Blink, Bar), (6, Steady, Bar)]"

definition impl_DECSCUSR :: "Sequence \<Rightarrow> Screen \<Rightarrow> ApplyResult \<times> Screen" where
  "impl_DECSCUSR seq scr =
     (if parameterCount seq \<le> 1 then
        (case map_of cursorStyles (param_or seq 0 1) of
           Some (d, s) \<Rightarrow> (Ok, call (setCursorStyle d s) scr)
         | None \<Rightarrow> (Invalid, scr))
      else (Invalid, scr))"

definition ED_step :: "Sequence \<Rightarrow> nat \<Rightarrow> Screen \<Rightarrow> Screen" where
  "ED_step seq i scr =
     (if seq_param seq i = 0 then call clearToEndOfScreen scr
      else if seq_param seq i = 1 then call clearToBeginOfScreen scr
      else if seq_param seq i = 2 then call clearScreen scr
      else if seq_param seq i = 3 then call clearScrollbackBuffer scr
      else scr)"

definition impl_ED :: "Sequence \<Rightarrow> Screen \<Rightarrow> ApplyResult \<times> Screen" where
  "impl_ED seq scr =
     (if parameterCount seq = 0 then (Ok, call clearToEndOfScreen scr)
      else (Ok, fold (ED_step seq) [0 ..< parameterCount seq] scr))"

definition impl_EL :: "Sequence \<Rightarrow> Screen \<Rightarrow> ApplyResult \<times> Screen" where
  "impl_EL seq scr =
     (if param_or seq 0 0 = 0 then (Ok, call clearToEndOfLine scr)
      else if param_or seq 0 0 = 1 then (Ok, call clearToBeginOfLine scr)
      else if param_or seq 0 0 = 2 then (Ok, call clearLine scr)
      else (Invalid, scr))"

definition impl_TBC :: "Sequence \<Rightarrow> Screen \<Rightarrow> ApplyResult \<times> Screen" where
  "impl_TBC seq scr =
     (if parameterCount seq \<noteq> 1 then (Ok, call (horizontalTabClear AllTabs) scr)
      else if seq_param seq 0 = 0 then (Ok, call (horizontalTabClear UnderCursor) scr)
      else if seq_param seq 0 = 3 then (Ok, call (horizontalTabClear AllTabs) scr)
      else (Invalid, scr))"

subsection \<open>OSC payloads\<close>

text \<open>
  \<^verbatim>\<open>Sequencer::parseColor(value)\<close>, the literal \<^verbatim>\<open>rgb:RRRR/GGGG/BBBB\<close>. The three
  groups are converted by \<^verbatim>\<open>crispy::strntoul\<close> at the offsets 4, 9 and 14 with count 4
  and base 16; an exception of the conversion is caught and gives \<^verbatim>\<open>nullopt\<close>.
\<close>

definition Sequencer_parseColor :: "Externals \<Rightarrow> string \<Rightarrow> Color option" where
  "Sequencer_parseColor E v =
     (if length v = 18 \<and> take 4 v = ''rgb:'' \<and> v ! 8 = CHR ''/'' \<and> v ! 13 = CHR ''/'' then
        (case strntoul E (drop 4 v) 4 16 of
           None \<Rightarrow> None
         | Some r \<Rightarrow>
             (case strntoul E (drop 9 v) 4 16 of
                None \<Rightarrow> None
              | Some g \<Rightarrow>
                  (case strntoul E (drop 14 v) 4 16 of
                     None \<Rightarrow> None
                   | Some b \<Rightarrow>
                       Some (RGBColor (ucast (r AND 0xFF)) (ucast (g AND 0xFF))
                                      (ucast (b AND 0xFF))))))
      else None)"

definition setOrRequestDynamicColor ::
  "Externals \<Rightarrow> Sequence \<Rightarrow> Screen \<Rightarrow> DynamicColorName \<Rightarrow> ApplyResult \<times> Screen" where
  "setOrRequestDynamicColor E seq scr name =
     (if intermediateCharacters seq = ''?'' then (Ok, call (requestDynamicColor name) scr)
      else
        (case Sequencer_parseColor E (intermediateCharacters seq) of
           Some color \<Rightarrow> (Ok, call (setDynamicColor name color) scr)
         | None \<Rightarrow> (Invalid, scr)))"

definition clipboard :: "Externals \<Rightarrow> Sequence \<Rightarrow> Screen \<Rightarrow> ApplyResult \<times> Screen" where
  "clipboard E seq scr =
     (let splits = split E (intermediateCharacters seq) (CHR '';'') in
      if length splits = 2 \<and> splits ! 0 = ''c''
      then (Ok, call (eventListener_copyToClipboard (base64_decode E (splits ! 1))) scr)
      else (Invalid, scr))"

definition impl_NOTIFY :: "Externals \<Rightarrow> Sequence \<Rightarrow> Screen \<Rightarrow> ApplyResult \<times> Screen" where
  "impl_NOTIFY E seq scr =
     (let splits = split E (intermediateCharacters seq) (CHR '';'') in
      if length splits = 3 \<and> splits ! 0 = ''notify''
      then (Ok, call (notify (splits ! 1) (splits ! 2)) scr)
      else (Unsupported, scr))"

text \<open>In \<^verbatim>\<open>impl::HYPERLINK\<close>, \<open>pos\<close> is the position of the first \<^verbatim>\<open>;\<close> of the payload.\<close>

definition impl_HYPERLINK :: "Externals \<Rightarrow> Sequence \<Rightarrow> Screen \<Rightarrow> ApplyResult \<times> Screen" where
  "impl_HYPERLINK E seq scr =
     (let v = intermediateCharacters seq in
      if CHR '';'' \<in> set v then
        (let pos = length (takeWhile (\<lambda>c. c \<noteq> CHR '';'') v);
             ps = splitKeyValuePairs E (take pos v) (CHR '':'');
             ident = (case map_of ps ''id'' of Some x \<Rightarrow> x | None \<Rightarrow> [])
         in if pos + 1 \<noteq> length v then (Ok, call (hyperlink ident (drop (pos + 1) v)) scr)
            else (Ok, call (hyperlink ident []) scr))
      else (Ok, call (hyperlink [] []) scr))"

definition statusStrings :: "(string \<times> RequestStatusStringValue) list" where
  "statusStrings =
     [(''m'', RSS_SGR), ([CHR 0x22, CHR ''p''], RSS_DECSCL), ('' q'', RSS_DECSCUSR),
      ([CHR 0x22, CHR ''q''], RSS_DECSCA), (''r'', RSS_DECSTBM), (''s'', RSS_DECSLRM),
      (''t'', RSS_DECSLPP), (''$|'', RSS_DECSCPP), (''*|'', RSS_DECSNLS)]"

definition impl_DECRQSS :: "Sequence \<Rightarrow> Screen \<Rightarrow> ApplyResult \<times> Screen" where
  "impl_DECRQSS seq scr =
     (case map_of statusStrings (dataString seq) of
        Some s \<Rightarrow> (Ok, call (requestStatusString s) scr)
      | None \<Rightarrow> (Invalid, scr))"

subsection \<open>Mode stack, window manipulation, graphics settings\<close>

definition collectDECModes :: "Sequence \<Rightarrow> Mode list" where
  "collectDECModes seq =
     List.map_filter (\<lambda>i. toDECMode (seq_param seq i)) [0 ..< parameterCount seq]"

definition saveDECModes :: "Sequence \<Rightarrow> Screen \<Rightarrow> ApplyResult \<times> Screen" where
  "saveDECModes seq scr = (Ok, call (saveModes (collectDECModes seq)) scr)"

definition restoreDECModes :: "Sequence \<Rightarrow> Screen \<Rightarrow> ApplyResult \<times> Screen" where
  "restoreDECModes seq scr = (Ok, call (restoreModes (collectDECModes seq)) scr)"

definition impl_WINDOWMANIP :: "Sequence \<Rightarrow> Screen \<Rightarrow> ApplyResult \<times> Screen" where
  "impl_WINDOWMANIP seq scr =
     (if parameterCount seq = 3 then
        (if seq_param seq 0 = 4
         then (Ok, call (eventListener_resizeWindow (seq_param seq 2) (seq_param seq 1) True) scr)
         else if seq_param seq 0 = 8
         then (Ok, call (eventListener_resizeWindow (seq_param seq 2) (seq_param seq 1) False) scr)
         else if seq_param seq 0 = 22 then (Ok, call saveWindowTitle scr)
         else if seq_param seq 0 = 23 then (Ok, call restoreWindowTitle scr)
         else (Unsupported, scr))
      else if parameterCount seq = 1 then
        (if seq_param seq 0 = 4 then (Ok, call (eventListener_resizeWindow 0 0 True) scr)
         else if seq_param seq 0 = 8 then (Ok, call (eventListener_resizeWindow 0 0 False) scr)
         else if seq_param seq 0 = 14 then (Ok, call (requestPixelSize TextArea) scr)
         else (Unsupported, scr))
      else (Unsupported, scr))"

definition impl_XTSMGRAPHICS :: "Sequence \<Rightarrow> Screen \<Rightarrow> ApplyResult \<times> Screen" where
  "impl_XTSMGRAPHICS seq scr =
     (let Pi = seq_param seq 0; Pa = seq_param seq 1;
          Pv = param_or seq 2 0; Pu = param_or seq 3 0;
          item = map_of [(1, NumberOfColorRegisters), (2, SixelGraphicsGeometry),
                         (3, ReGISGraphicsGeometry)] Pi;
          action = map_of [(1, Read), (2, ResetToDefault), (3, SetToValue), (4, ReadLimit)] Pa
      in case item of
           None \<Rightarrow> (Invalid, scr)
         | Some it \<Rightarrow>
             (case action of
                None \<Rightarrow> (Invalid, scr)
              | Some act \<Rightarrow>
                  (let v = (if act = SetToValue
                            then (if it = NumberOfColorRegisters then ValueNumber Pv
                                  else ValueSize (Size Pv Pu))
                            else Monostate)
                   in (Ok, call (smGraphics it act v) scr))))"

subsection \<open>Applying a function\<close>

text \<open>
  The switch of \<^verbatim>\<open>Sequencer::apply\<close> over the function identity: every case calls into
  the screen only. The result is the value returned and the screen after the calls.
\<close>

definition apply_switch ::
  "Externals \<Rightarrow> FunctionDefinition \<Rightarrow> Sequence \<Rightarrow> Screen \<Rightarrow> ApplyResult \<times> Screen" where
  "apply_switch E f seq scr =
     (case f of
        BEL \<Rightarrow> (Ok, call eventListener_bell scr)
      | BS \<Rightarrow> (Ok, call backspace scr)
      | TAB \<Rightarrow> (Ok, call moveCursorToNextTab scr)
      | LF \<Rightarrow> (Ok, call linefeed scr)
      | VT \<Rightarrow> (Ok, call index scr)
      | FF \<Rightarrow> (Ok, call index scr)
      | CR \<Rightarrow> (Ok, call moveCursorToBeginOfLine scr)
      | SCS_G0_SPECIAL \<Rightarrow> (Ok, call (designateCharset G0 Special) scr)
      | SCS_G0_USASCII \<Rightarrow> (Ok, call (designateCharset G0 USASCII) scr)
      | SCS_G1_SPECIAL \<Rightarrow> (Ok, call (designateCharset G1 Special) scr)
      | SCS_G1_USASCII \<Rightarrow> (Ok, call (designateCharset G1 USASCII) scr)
      | DECALN \<Rightarrow> (Ok, call screenAlignmentPattern scr)
      | DECBI \<Rightarrow> (Ok, call backIndex scr)
      | DECFI \<Rightarrow> (Ok, call forwardIndex scr)
      | DECKPAM \<Rightarrow> (Ok, call (applicationKeypadMode True) scr)
      | DECKPNM \<Rightarrow> (Ok, call (applicationKeypadMode False) scr)
      | DECRS \<Rightarrow> (Ok, call restoreCursor scr)
      | DECSC \<Rightarrow> (Ok, call saveCursor scr)
      | HTS \<Rightarrow> (Ok, call horizontalTabSet scr)
      | IND \<Rightarrow> (Ok, call index scr)
      | NEL \<Rightarrow> (Ok, call (moveCursorToNextLine 1) scr)
      | RI \<Rightarrow> (Ok, call reverseIndex scr)
      | RIS \<Rightarrow> (Ok, call resetHard scr)
      | SS2 \<Rightarrow> (Ok, call (singleShiftSelect G2) scr)
      | SS3 \<Rightarrow> (Ok, call (singleShiftSelect G3) scr)
      | ANSISYSSC \<Rightarrow> (Ok, call restoreCursor scr)
      | CBT \<Rightarrow> (Ok, call (cursorBackwardTab (param_or seq 0 1)) scr)
      | CHA \<Rightarrow> (Ok, call (moveCursorToColumn (param_or seq 0 1)) scr)
      | CHT \<Rightarrow> (Ok, call (cursorForwardTab (param_or seq 0 1)) scr)
      | CNL \<Rightarrow> (Ok, call (moveCursorToNextLine (param_or seq 0 1)) scr)
      | CPL \<Rightarrow> (Ok, call (moveCursorToPrevLine (param_or seq 0 1)) scr)
      | CPR \<Rightarrow> impl_CPR seq scr
      | CUB \<Rightarrow> (Ok, call (moveCursorBackward (param_or seq 0 1)) scr)
      | CUD \<Rightarrow> (Ok, call (moveCursorDown (param_or seq 0 1)) scr)
      | CUF \<Rightarrow> (Ok, call (moveCursorForward (param_or seq 0 1)) scr)
      | CUP \<Rightarrow> (Ok, call (moveCursorTo (Coordinate (param_or seq 0 1) (param_or seq 1 1))) scr)
      | CUU \<Rightarrow> (Ok, call (moveCursorUp (param_or seq 0 1)) scr)
      | DA1 \<Rightarrow> (Ok, call sendDeviceAttributes scr)
      | DA2 \<Rightarrow> (Ok, call sendTerminalId scr)
      | DA3 \<Rightarrow> (Unsupported, scr)
      | DCH \<Rightarrow> (Ok, call (deleteCharacters (param_or seq 0 1)) scr)
      | DECDC \<Rightarrow> (Ok, call (deleteColumns (param_or seq 0 1)) scr)
      | DECIC \<Rightarrow> (Ok, call (insertColumns (param_or seq 0 1)) scr)
      | DECRM \<Rightarrow>
          (Ok, fold (\<lambda>i s. snd (setModeDEC seq i False s)) [0 ..< parameterCount seq] scr)
      | DECRQM \<Rightarrow> (requestModeDEC seq (seq_param seq 0), scr)
      | DECRQM_ANSI \<Rightarrow> (requestMode seq (seq_param seq 0), scr)
      | DECRQPSR \<Rightarrow> impl_DECRQPSR seq scr
      | DECSCUSR \<Rightarrow> impl_DECSCUSR seq scr
      | DECSCPP \<Rightarrow>
          (if param_or seq 0 80 = 80 \<or> param_or seq 0 80 = 132
           then (Ok, call (resizeColumns (param_or seq 0 80) False) scr)
           else (Invalid, scr))
      | DECSLRM \<Rightarrow> (Ok, call (setLeftRightMargin (param_opt E seq 0) (param_opt E seq 1)) scr)
      | DECSM \<Rightarrow>
          (Ok, fold (\<lambda>i s. snd (setModeDEC seq i True s)) [0 ..< parameterCount seq] scr)
      | DECSTBM \<Rightarrow> (Ok, call (setTopBottomMargin (param_opt E seq 0) (param_opt E seq 1)) scr)
      | DECSTR \<Rightarrow> (Ok, call resetSoft scr)
      | DECXCPR \<Rightarrow> (Ok, call reportExtendedCursorPosition scr)
      | DL \<Rightarrow> (Ok, call (deleteLines (param_or seq 0 1)) scr)
      | ECH \<Rightarrow> (Ok, call (eraseCharacters (param_or seq 0 1)) scr)
      | ED \<Rightarrow> impl_ED seq scr
      | EL \<Rightarrow> impl_EL seq scr
      | HPA \<Rightarrow> (Ok, call (moveCursorToColumn (seq_param seq 0)) scr)
      | HPR \<Rightarrow> (Ok, call (moveCursorForward (seq_param seq 0)) scr)
      | HVP \<Rightarrow> (Ok, call (moveCursorTo (Coordinate (param_or seq 0 1) (param_or seq 1 1))) scr)
      | ICH \<Rightarrow> (Ok, call (insertCharacters (param_or seq 0 1)) scr)
      | IL \<Rightarrow> (Ok, call (insertLines (param_or seq 0 1)) scr)
      | RM \<Rightarrow>
          (Ok, fold (\<lambda>i s. snd (setAnsiMode seq i False s)) [0 ..< parameterCount seq] scr)
      | SCOSC \<Rightarrow> (Ok, call saveCursor scr)
      | SD \<Rightarrow> (Ok, call (scrollDown (param_or seq 0 1)) scr)
      | SETMARK \<Rightarrow> (Ok, call setMark scr)
      | SGR \<Rightarrow> dispatchSGR seq scr
      | SM \<Rightarrow>
          (Ok, fold (\<lambda>i s. snd (setAnsiMode seq i True s)) [0 ..< parameterCount seq] scr)
      | SU \<Rightarrow> (Ok, call (scrollUp (param_or seq 0 1)) scr)
      | TBC \<Rightarrow> impl_TBC seq scr
      | VPA \<Rightarrow> (Ok, call (moveCursorToLine (param_or seq 0 1)) scr)
      | WINMANIP \<Rightarrow> impl_WINDOWMANIP seq scr
      | DECMODERESTORE \<Rightarrow> restoreDECModes seq scr
      | DECMODESAVE \<Rightarrow> saveDECModes seq scr
      | XTSMGRAPHICS \<Rightarrow> impl_XTSMGRAPHICS seq scr
      | SETTITLE \<Rightarrow> (Ok, call (setWindowTitle (intermediateCharacters seq)) scr)
      | SETICON \<Rightarrow> (Unsupported, scr)
      | SETWINTITLE \<Rightarrow> (Ok, call (setWindowTitle (intermediateCharacters seq)) scr)
      | SETXPROP \<Rightarrow> (Unsupported, scr)
      | HYPERLINK \<Rightarrow> impl_HYPERLINK E seq scr
      | COLORFG \<Rightarrow> setOrRequestDynamicColor E seq scr DefaultForegroundColor
      | COLORBG \<Rightarrow> setOrRequestDynamicColor E seq scr DefaultBackgroundColor
      | COLORCURSOR \<Rightarrow> setOrRequestDynamicColor E seq scr TextCursorColor
      | COLORMOUSEFG \<Rightarrow> setOrRequestDynamicColor E seq scr MouseForegroundColor
      | COLORMOUSEBG \<Rightarrow> setOrRequestDynamicColor E seq scr MouseBackgroundColor
      | CLIPBOARD \<Rightarrow> clipboard E seq scr
      | RCOLORFG \<Rightarrow> (Ok, call (resetDynamicColor DefaultForegroundColor) scr)
      | RCOLORBG \<Rightarrow> (Ok, call (resetDynamicColor DefaultBackgroundColor) scr)
      | RCOLORCURSOR \<Rightarrow> (Ok, call (resetDynamicColor TextCursorColor) scr)
      | RCOLORMOUSEFG \<Rightarrow> (Ok, call (resetDynamicColor MouseForegroundColor) scr)
      | RCOLORMOUSEBG \<Rightarrow> (Ok, call (resetDynamicColor MouseBackgroundColor) scr)
      | RCOLORHIGHLIGHTFG \<Rightarrow> (Ok, call (resetDynamicColor HighlightForegroundColor) scr)
      | RCOLORHIGHLIGHTBG \<Rightarrow> (Ok, call (resetDynamicColor HighlightBackgroundColor) scr)
      | NOTIFY \<Rightarrow> impl_NOTIFY E seq scr
      | DUMPSTATE \<Rightarrow> (Ok, call dumpState scr)
      | _ \<Rightarrow> (Unsupported, scr))"

section \<open>The sequencer's entry points\<close>

text \<open>
  \<^verbatim>\<open>Sequencer::apply\<close>: while batching, a batchable function is appended to the queue
  and nothing reaches the screen; otherwise the switch runs on the screen.
\<close>

definition Sequencer_apply ::
  "Externals \<Rightarrow> FunctionDefinition \<Rightarrow> Sequence \<Rightarrow> Sequencer \<Rightarrow> ApplyResult \<times> Sequencer" where
  "Sequencer_apply E f seq st =
     (if batching st \<and> isBatchable E f
      then (Ok, st\<lparr>batchedSequences := batchedSequences st @ [BatchedSequence seq]\<rparr>)
      else (fst (apply_switch E f seq (screen st)),
            st\<lparr>screen := snd (apply_switch E f seq (screen st))\<rparr>))"

definition print :: "nat \<Rightarrow> Sequencer \<Rightarrow> Sequencer" where
  "print ch st =
     (if batching st then st\<lparr>batchedSequences := batchedSequences st @ [BatchedChar ch]\<rparr>
      else st\<lparr>instructionCounter := instructionCounter st + 1,
              screen := call (writeText ch) (screen st)\<rparr>)"

text \<open>
  \<^verbatim>\<open>Sequencer::flushBatchedSequences\<close>: the entries of the queue, first to last, then
  the queue is emptied. Its one caller switches batching off first, so that no entry
  is appended while the loop runs; the model walks the queue as it is on entry.
\<close>

definition flush_entry :: "Externals \<Rightarrow> Batchable \<Rightarrow> Sequencer \<Rightarrow> Sequencer" where
  "flush_entry E b st =
     (case b of
        BatchedChar ch \<Rightarrow> print ch st
      | BatchedSequence seq \<Rightarrow>
          (case functionDefinition E seq of
             Some spec \<Rightarrow> snd (Sequencer_apply E spec seq st)
           | None \<Rightarrow> st)
      | BatchedImage si \<Rightarrow> st\<lparr>screen := call (sixelImage (image_size si) (rgba si)) (screen st)\<rparr>)"

definition flushBatchedSequences :: "Externals \<Rightarrow> Sequencer \<Rightarrow> Sequencer" where
  "flushBatchedSequences E st =
     (fold (flush_entry E) (batchedSequences st) st)\<lparr>batchedSequences := []\<rparr>"

definition handleSequence :: "Externals \<Rightarrow> Sequencer \<Rightarrow> Sequencer" where
  "handleSequence E st0 =
     (let st = st0\<lparr>instructionCounter := instructionCounter st0 + 1\<rparr>;
          seq = sequence st
      in case functionDefinition E seq of
           None \<Rightarrow> st\<lparr>logged := logged st @ [UnknownVTSequence seq]\<rparr>
         | Some funcSpec \<Rightarrow>
             (let st' =
                (if funcSpec = DECSM \<and> containsParameter seq 2026
                 then snd (Sequencer_apply E funcSpec seq (st\<lparr>batching := True\<rparr>))
                 else if funcSpec = DECRM \<and> containsParameter seq 2026
                 then snd (Sequencer_apply E funcSpec seq
                             (flushBatchedSequences E (st\<lparr>batching := False\<rparr>)))
                 else if batching st \<and> isBatchable E funcSpec
                 then st\<lparr>batchedSequences := batchedSequences st @ [BatchedSequence seq]\<rparr>
                 else snd (Sequencer_apply E funcSpec seq st))
              in st'\<lparr>screen := call verifyState (screen st')\<rparr>))"

definition executeControlFunction :: "Externals \<Rightarrow> char \<Rightarrow> Sequencer \<Rightarrow> Sequencer" where
  "executeControlFunction E c0 st0 =
     (if batching st0 then
        handleSequence E
          (st0\<lparr>sequence := (Sequence_clear (sequence st0))\<lparr>category := C0, finalChar := c0\<rparr>\<rparr>)
      else
        (let st = st0\<lparr>instructionCounter := instructionCounter st0 + 1\<rparr> in
         if c0 = CHR 0x07 then st\<lparr>screen := call eventListener_bell (screen st)\<rparr>
         else if c0 = CHR 0x08 then st\<lparr>screen := call backspace (screen st)\<rparr>
         else if c0 = CHR 0x09 then st\<lparr>screen := call moveCursorToNextTab (screen st)\<rparr>
         else if c0 = CHR 0x0A then st\<lparr>screen := call linefeed (screen st)\<rparr>
         else if c0 = CHR 0x0B then st\<lparr>screen := call index (screen st)\<rparr>
         else if c0 = CHR 0x0C then st\<lparr>screen := call index (screen st)\<rparr>
         else if c0 = CHR 0x0D then st\<lparr>screen := call moveCursorToBeginOfLine (screen st)\<rparr>
         else if c0 = CHR 0x37 then st\<lparr>screen := call saveCursor (screen st)\<rparr>
         else if c0 = CHR 0x38 then st\<lparr>screen := call restoreCursor (screen st)\<rparr>
         else st\<lparr>logged := logged st @ [UnsupportedOutputEvent c0]\<rparr>))"

definition execute :: "Externals \<Rightarrow> char \<Rightarrow> Sequencer \<Rightarrow> Sequencer" where
  "execute E controlCode st = executeControlFunction E controlCode st"

definition dispatchESC :: "Externals \<Rightarrow> char \<Rightarrow> Sequencer \<Rightarrow> Sequencer" where
  "dispatchESC E final st =
     handleSequence E (st\<lparr>sequence := (sequence st)\<lparr>category := ESC, finalChar := final\<rparr>\<rparr>)"

definition dispatchCSI :: "Externals \<Rightarrow> char \<Rightarrow> Sequencer \<Rightarrow> Sequencer" where
  "dispatchCSI E final st =
     handleSequence E (st\<lparr>sequence := (sequence st)\<lparr>category := CSI, finalChar := final\<rparr>\<rparr>)"

definition startOSC :: "Sequencer \<Rightarrow> Sequencer" where
  "startOSC st = st\<lparr>sequence := (sequence st)\<lparr>category := OSC\<rparr>\<rparr>"

text \<open>
  \<^verbatim>\<open>parseOSC\<close>: the code and the number of bytes to skip. The code is a 32-bit
  \<^verbatim>\<open>int\<close>, kept here as its 32 bits (\<open>sint\<close> reads it): \<^verbatim>\<open>code * 10 + c - '0'\<close> wraps
  around, and the negated byte of the second branch is the two's complement. A
  \<^verbatim>\<open>char\<close> is taken as signed where it is promoted to \<^verbatim>\<open>int\<close>.
\<close>

definition char_to_int :: "char \<Rightarrow> int" where
  "char_to_int c = (if (of_char c :: nat) < 128 then of_char c else of_char c - 256)"

definition parseOSC :: "string \<Rightarrow> 32 word \<times> nat" where
  "parseOSC d =
     (let digits = takeWhile isdigit d;
          i0 = length digits;
          code0 = foldl (\<lambda>code c. code * 10 + of_int (char_to_int c) - 48) 0 digits;
          code = (if i0 = 0 \<and> d \<noteq> [] \<and> d ! 0 \<noteq> CHR '';''
                  then - of_int (char_to_int (d ! 0)) else code0);
          i1 = (if i0 = 0 \<and> d \<noteq> [] \<and> d ! 0 \<noteq> CHR '';'' then i0 + 1 else i0);
          i2 = (if i1 < length d \<and> d ! i1 = CHR '';'' then i1 + 1 else i1)
      in (code, i2))"

text \<open>
  \<^verbatim>\<open>Sequencer::dispatchOSC\<close>. The cast of the code to \<^verbatim>\<open>Sequence::Parameter\<close> keeps its
  32 bits.
\<close>

definition dispatchOSC :: "Externals \<Rightarrow> Sequencer \<Rightarrow> Sequencer" where
  "dispatchOSC E st0 =
     (case parseOSC (intermediateCharacters (sequence st0)) of
        (code, skipCount) \<Rightarrow>
          (let seq = (sequence st0)
                 \<lparr>parameters := parameters (sequence st0) @ [[code]],
                  intermediateCharacters := drop skipCount (intermediateCharacters (sequence st0))\<rparr>;
               st = handleSequence E (st0\<lparr>sequence := seq\<rparr>)
           in st\<lparr>sequence := Sequence_clear (sequence st)\<rparr>))"

section \<open>Serialisation\<close>

fun to_string :: "nat \<Rightarrow> string" where
  "to_string n =
     (if n < 10 then [char_of (48 + n)]
      else to_string (n div 10) @ [char_of (48 + n mod 10)])"

declare to_string.simps [simp del]

text \<open>
  \<^verbatim>\<open>Sequence::raw\<close>. The leader is not written. After the primary value of a group the
  inner loop runs \<open>k\<close> from 1 below \<open>subParameterCount i\<close> and writes \<open>subparam i k\<close>.
\<close>

definition raw_group :: "Sequence \<Rightarrow> nat \<Rightarrow> string" where
  "raw_group s i =
     (if i \<noteq> 0 then '';'' else []) @ to_string (unat (seq_param s i)) @
     concat (map (\<lambda>k. '':'' @ to_string (unat (subparam s i k))) [1 ..< subParameterCount s i])"

definition raw :: "Sequence \<Rightarrow> string" where
  "raw s =
     (case category s of
        C0 \<Rightarrow> []
      | ESC \<Rightarrow> [CHR 0x1B]
      | CSI \<Rightarrow> [CHR 0x1B, CHR ''['']
      | DCS \<Rightarrow> [CHR 0x1B, CHR ''P'']
      | OSC \<Rightarrow> [CHR 0x1B, CHR '']'']) @
     (if parameterCount s > 1 \<or> (parameterCount s = 1 \<and> seq_param s 0 \<noteq> 0)
      then concat (map (raw_group s) [0 ..< parameterCount s])
      else []) @
     intermediateCharacters s @
     (if finalChar s \<noteq> CHR 0x00 then [finalChar s] else []) @
     (if dataString s \<noteq> [] then dataString s @ [CHR 0x1B, CHR 0x5C] else [])"

section \<open>The message parser\<close>

text \<open>
  \<^verbatim>\<open>MessageParser.h\<close> declares the parser: its limits, its states and its members. The
  member functions \<^verbatim>\<open>pass\<close>, \<^verbatim>\<open>flushHeader\<close>, \<^verbatim>\<open>finalize\<close> and \<^verbatim>\<open>parse\<close> are defined in
  \<^verbatim>\<open>MessageParser.cpp\<close>, which is not part of the sources at hand.
\<close>

definition MaxKeyLength :: nat where "MaxKeyLength = 64"
definition MaxValueLength :: nat where "MaxValueLength = 512"
definition MaxParamCount :: nat where "MaxParamCount = 32"
definition MaxBodyLength :: nat where "MaxBodyLength = 8 * 1024 * 1024"

datatype State = ParamKey | ParamValue | BodyStart | Body

record Message =
  message_headers :: "(string \<times> string) list"
  message_body :: string

record MessageParser =
  state :: State
  parsedKey :: string
  parsedValue :: string
  headers :: "(string \<times> string) list"
  body :: string

text \<open>The header map as a list of pairs with unique keys: a later value for a key
  replaces the earlier one.\<close>

fun set_header :: "string \<Rightarrow> string \<Rightarrow> (string \<times> string) list \<Rightarrow> (string \<times> string) list" where
  "set_header k v [] = [(k, v)]"
| "set_header k v ((k', v') # hs) =
     (if k = k' then (k, v) # hs else (k', v') # set_header k v hs)"

definition header :: "Message \<Rightarrow> string \<Rightarrow> string option" where
  "header m k = map_of (message_headers m) k"

text \<open>
  Modelled from the spec: the base64 form of a header value and of the body is not in
  the sources at hand. Bytes that begin with \<^verbatim>\<open>!\<close> stand for the base64 decoding of the
  remainder, and for the un-prefixed remainder when decoding fails; other bytes stand
  for themselves. The base64 decoder \<open>dec\<close> (\<^verbatim>\<open>crispy::base64\<close>) is a parameter, \<open>None\<close>
  for a failure.
\<close>

definition decoded :: "(string \<Rightarrow> string option) \<Rightarrow> string \<Rightarrow> string" where
  "decoded dec v =
     (case v of
        [] \<Rightarrow> []
      | c # rest \<Rightarrow>
          (if c = CHR ''!''
           then (case dec rest of Some d \<Rightarrow> d | None \<Rightarrow> rest)
           else c # rest))"

text \<open>
  Modelled from the spec: \<^verbatim>\<open>MessageParser::flushHeader\<close> is missing. The pending pair
  is committed if the key buffer is non-empty (and the header count stays within 32);
  a value that begins with \<^verbatim>\<open>!\<close> is base64-decoded, and the un-prefixed bytes are stored
  when decoding fails; a duplicate key overwrites; the buffers are emptied.
\<close>

definition flushHeader :: "(string \<Rightarrow> string option) \<Rightarrow> MessageParser \<Rightarrow> MessageParser" where
  "flushHeader dec p =
     (let hasSpaceAvailable =
            (length (headers p) < MaxParamCount \<or> map_of (headers p) (parsedKey p) \<noteq> None);
          v = decoded dec (parsedValue p)
      in (if parsedKey p \<noteq> [] \<and> hasSpaceAvailable
          then p\<lparr>headers := set_header (parsedKey p) v (headers p)\<rparr>
          else p)\<lparr>parsedKey := [], parsedValue := []\<rparr>)"

text \<open>
  Modelled from the spec: \<^verbatim>\<open>MessageParser::pass\<close> is missing. The transitions are those
  of the specification's state machine, with its limits on key, value and body.
\<close>

definition pass :: "(string \<Rightarrow> string option) \<Rightarrow> char \<Rightarrow> MessageParser \<Rightarrow> MessageParser" where
  "pass dec c p =
     (case state p of
        ParamKey \<Rightarrow>
          (if c = CHR ''='' then p\<lparr>state := ParamValue\<rparr>
           else if c = CHR '','' then flushHeader dec p
           else if c = CHR '';'' then (flushHeader dec p)\<lparr>state := BodyStart\<rparr>
           else if length (parsedKey p) < MaxKeyLength then p\<lparr>parsedKey := parsedKey p @ [c]\<rparr>
           else p)
      | ParamValue \<Rightarrow>
          (if c = CHR '','' then (flushHeader dec p)\<lparr>state := ParamKey\<rparr>
           else if c = CHR '';'' then (flushHeader dec p)\<lparr>state := BodyStart\<rparr>
           else if length (parsedValue p) < MaxValueLength
           then p\<lparr>parsedValue := parsedValue p @ [c]\<rparr>
           else p)
      | BodyStart \<Rightarrow> p\<lparr>state := Body, body := body p @ [c]\<rparr>
      | Body \<Rightarrow>
          (if length (body p) < MaxBodyLength then p\<lparr>body := body p @ [c]\<rparr> else p))"

text \<open>
  Modelled from the spec: \<^verbatim>\<open>MessageParser::start\<close>, \<^verbatim>\<open>finalize\<close> and \<^verbatim>\<open>parse\<close> are
  missing. \<open>finalize\<close> flushes the pending header and hands over the message. The body
  it hands over is the collected bytes, base64-decoded when they begin with \<^verbatim>\<open>!\<close>: the
  payload \<^verbatim>\<open>a=foo,b=bar;!\<close> followed by the base64 form of \<^verbatim>\<open>abc\<close> has the body \<^verbatim>\<open>abc\<close>
  (the specification's scenario 7 and the test \<^verbatim>\<open>MessageParser.VT_embedded\<close>), and a
  decoding that fails leaves the un-prefixed bytes. \<open>parse\<close> passes every byte of the
  input to a fresh parser and finalizes.
\<close>

definition start :: MessageParser where
  "start = \<lparr>state = ParamKey, parsedKey = [], parsedValue = [], headers = [], body = []\<rparr>"

definition finalize :: "(string \<Rightarrow> string option) \<Rightarrow> MessageParser \<Rightarrow> Message" where
  "finalize dec p =
     \<lparr>message_headers = headers (flushHeader dec p),
      message_body = decoded dec (body (flushHeader dec p))\<rparr>"

definition parseFragment :: "(string \<Rightarrow> string option) \<Rightarrow> string \<Rightarrow> MessageParser \<Rightarrow> MessageParser" where
  "parseFragment dec cs p = fold (pass dec) cs p"

definition parse :: "(string \<Rightarrow> string option) \<Rightarrow> string \<Rightarrow> Message" where
  "parse dec cs = finalize dec (parseFragment dec cs start)"

section \<open>Notions used in the statements\<close>


text \<open>The sequencer after construction: a cleared sequence, batching off, an empty
  queue, and a screen that has received nothing.\<close>

definition Sequencer_init :: Sequencer where
  "Sequencer_init =
     \<lparr>sequence = \<lparr>category = C0, leaderSymbol = CHR 0x00, parameters = [],
         intermediateCharacters = [], finalChar = CHR 0x00, dataString = []\<rparr>,
      batching = False, batchedSequences = [], instructionCounter = 0, screen = [],
      logged = []\<rparr>"

text \<open>The number that a string of digits denotes, without any bound.\<close>

definition decimal_value :: "string \<Rightarrow> nat" where
  "decimal_value ds = foldl (\<lambda>n c. 10 * n + (of_char c - 48)) 0 ds"

text \<open>The limits on the parameter list: at most \<open>MaxParameters\<close> groups, each with at
  least one and at most \<open>MaxParameters\<close> values.\<close>

definition within_limits :: "Parameter list list \<Rightarrow> bool" where
  "within_limits ps =
     (length ps \<le> MaxParameters \<and> list_all (\<lambda>g. g \<noteq> [] \<and> length g \<le> MaxParameters) ps)"

text \<open>The producer hands over a completed sequence: it becomes the current sequence
  and \<open>handleSequence\<close> runs; \<open>feeds\<close> does so for a stream of sequences.\<close>

definition feed :: "Externals \<Rightarrow> Sequence \<Rightarrow> Sequencer \<Rightarrow> Sequencer" where
  "feed E s st = handleSequence E (st\<lparr>sequence := s\<rparr>)"

definition feeds :: "Externals \<Rightarrow> Sequence list \<Rightarrow> Sequencer \<Rightarrow> Sequencer" where
  "feeds E ss st = fold (feed E) ss st"

text \<open>A sequence that resolves to a batchable function and is not one of the two
  switches of the synchronized-output mode.\<close>

definition batchable_sequence :: "Externals \<Rightarrow> Sequence \<Rightarrow> FunctionDefinition \<Rightarrow> bool" where
  "batchable_sequence E s f =
     (functionDefinition E s = Some f \<and> isBatchable E f \<and>
      \<not> ((f = DECSM \<or> f = DECRM) \<and> containsParameter s 2026))"

text \<open>The screen calls that a function makes for a sequence when it is applied
  outside batching, and those that one entry of the batch queue stands for.\<close>

definition calls_of :: "Externals \<Rightarrow> FunctionDefinition \<Rightarrow> Sequence \<Rightarrow> ScreenCall list" where
  "calls_of E f seq = snd (apply_switch E f seq [])"

definition entry_calls :: "Externals \<Rightarrow> Batchable \<Rightarrow> ScreenCall list" where
  "entry_calls E b =
     (case b of
        BatchedChar ch \<Rightarrow> [writeText ch]
      | BatchedSequence seq \<Rightarrow>
          (case functionDefinition E seq of Some spec \<Rightarrow> calls_of E spec seq | None \<Rightarrow> [])
      | BatchedImage si \<Rightarrow> [sixelImage (image_size si) (rgba si)])"

text \<open>The sequence that \<open>executeControlFunction\<close> builds for a C0 byte while batching.\<close>

definition synthetic :: "char \<Rightarrow> Sequencer \<Rightarrow> Sequence" where
  "synthetic c0 st = (Sequence_clear (sequence st))\<lparr>category := C0, finalChar := c0\<rparr>"

text \<open>The function whose case in \<^verbatim>\<open>apply\<close> makes the call that
  \<open>executeControlFunction\<close> makes for the byte outside batching.\<close>

definition controlFunctions :: "(char \<times> FunctionDefinition) list" where
  "controlFunctions =
     [(CHR 0x07, BEL), (CHR 0x08, BS), (CHR 0x09, TAB), (CHR 0x0A, LF), (CHR 0x0B, VT),
      (CHR 0x0C, FF), (CHR 0x0D, CR), (CHR 0x37, DECSC), (CHR 0x38, DECRS)]"

definition dynamicColors :: "(FunctionDefinition \<times> DynamicColorName) list" where
  "dynamicColors =
     [(COLORFG, DefaultForegroundColor), (COLORBG, DefaultBackgroundColor),
      (COLORCURSOR, TextCursorColor), (COLORMOUSEFG, MouseForegroundColor),
      (COLORMOUSEBG, MouseBackgroundColor)]"

text \<open>The call that \<^verbatim>\<open>impl::dispatchSGR\<close> makes with the colour parsed for the codes 38,
  48 and 58.\<close>

definition colorCall :: "Parameter \<Rightarrow> Color \<Rightarrow> ScreenCall" where
  "colorCall code c =
     (if code = 38 then setForegroundColor c
      else if code = 48 then setBackgroundColor c
      else setUnderlineColor c)"

subsection \<open>An instance of the parameters\<close>

text \<open>
  A small instance of \<open>Externals\<close>, to evaluate the definitions on concrete inputs: a
  function table with a few entries in the usual notation (the C0 controls, CSI
  \<^verbatim>\<open>? h\<close> as DECSM, CSI \<^verbatim>\<open>? l\<close> as DECRM, CSI \<^verbatim>\<open>H\<close> as CUP, CSI \<^verbatim>\<open>m\<close> as SGR, CSI
  \<^verbatim>\<open>n\<close> as CPR, OSC 10 and 11), mode switching and the position report not batchable,
  a conversion of hexadecimal digits that fails on any other byte, and a splitter.
\<close>

definition sample_functionDefinition :: "Sequence \<Rightarrow> FunctionDefinition option" where
  "sample_functionDefinition s =
     (case category s of
        C0 \<Rightarrow> map_of [(CHR 0x07, BEL), (CHR 0x08, BS), (CHR 0x09, TAB), (CHR 0x0A, LF),
                       (CHR 0x0B, VT), (CHR 0x0C, FF), (CHR 0x0D, CR)] (finalChar s)
      | CSI \<Rightarrow> map_of [((CHR ''?'', CHR ''h''), DECSM), ((CHR ''?'', CHR ''l''), DECRM),
                        ((CHR 0x00, CHR ''H''), CUP), ((CHR 0x00, CHR ''m''), SGR),
                        ((CHR 0x00, CHR ''n''), CPR)] (leaderSymbol s, finalChar s)
      | OSC \<Rightarrow> map_of [(10, COLORFG), (11, COLORBG)] (seq_param s 0)
      | _ \<Rightarrow> None)"

definition hex_digit :: "char \<Rightarrow> nat option" where
  "hex_digit c =
     (let n = (of_char c :: nat) in
      if 48 \<le> n \<and> n \<le> 57 then Some (n - 48)
      else if 65 \<le> n \<and> n \<le> 70 then Some (n - 55)
      else if 97 \<le> n \<and> n \<le> 102 then Some (n - 87)
      else None)"

fun hex_value :: "nat \<Rightarrow> string \<Rightarrow> nat option" where
  "hex_value acc [] = Some acc"
| "hex_value acc (c # cs) =
     (case hex_digit c of None \<Rightarrow> None | Some d \<Rightarrow> hex_value (16 * acc + d) cs)"

definition sample_strntoul :: "string \<Rightarrow> nat \<Rightarrow> nat \<Rightarrow> 64 word option" where
  "sample_strntoul d count base = map_option of_nat (hex_value 0 (take count d))"

fun splitOn :: "char \<Rightarrow> string \<Rightarrow> string list" where
  "splitOn sep [] = [[]]"
| "splitOn sep (c # cs) =
     (if c = sep then [] # splitOn sep cs
      else (case splitOn sep cs of [] \<Rightarrow> [[c]] | w # ws \<Rightarrow> (c # w) # ws))"

definition SampleExternals :: Externals where
  "SampleExternals =
     \<lparr>functionDefinition = sample_functionDefinition,
      isBatchable = (\<lambda>f. f \<noteq> DECSM \<and> f \<noteq> DECRM \<and> f \<noteq> CPR),
      param_opt = (\<lambda>s i. if i < parameterCount s then Some (seq_param s i) else None),
      strntoul = sample_strntoul,
      split = (\<lambda>s sep. splitOn sep s),
      splitKeyValuePairs = (\<lambda>s sep.
        map (\<lambda>kv. (takeWhile (\<lambda>c. c \<noteq> CHR ''='') kv, drop 1 (dropWhile (\<lambda>c. c \<noteq> CHR ''='') kv)))
          (splitOn sep s)),
      base64_decode = (\<lambda>s. s)\<rparr>"




text \<open>
  A base64 decoder for the standard alphabet, to evaluate the parser on the base64
  cases of \<^verbatim>\<open>MessageParser_test.cpp\<close>: four digits of six bits give three bytes, a last
  group of three or two digits gives two bytes or one, the padding \<^verbatim>\<open>=\<close> ends the input,
  and a byte outside the alphabet is a failure.
\<close>

definition base64_index :: "char \<Rightarrow> nat option" where
  "base64_index c =
     (let n = (of_char c :: nat) in
      if 65 \<le> n \<and> n \<le> 90 then Some (n - 65)
      else if 97 \<le> n \<and> n \<le> 122 then Some (n - 71)
      else if 48 \<le> n \<and> n \<le> 57 then Some (n + 4)
      else if n = 43 then Some 62
      else if n = 47 then Some 63
      else None)"

fun base64_indices :: "string \<Rightarrow> nat list option" where
  "base64_indices [] = Some []"
| "base64_indices (c # cs) =
     (if c = CHR ''='' then Some []
      else (case base64_index c of
              None \<Rightarrow> None
            | Some n \<Rightarrow> map_option ((#) n) (base64_indices cs)))"

fun base64_bytes :: "nat list \<Rightarrow> string" where
  "base64_bytes (a # b # c # d # rest) =
     char_of (a * 4 + b div 16) # char_of (b mod 16 * 16 + c div 4) # char_of (c mod 4 * 64 + d) #
     base64_bytes rest"
| "base64_bytes [a, b, c] = [char_of (a * 4 + b div 16), char_of (b mod 16 * 16 + c div 4)]"
| "base64_bytes [a, b] = [char_of (a * 4 + b div 16)]"
| "base64_bytes _ = []"

definition sample_base64 :: "string \<Rightarrow> string option" where
  "sample_base64 s = map_option base64_bytes (base64_indices s)"

text \<open>Some sequences: CSI \<^verbatim>\<open>? 2026 h\<close>, CSI \<^verbatim>\<open>? 2026 l\<close>, CSI \<^verbatim>\<open>H\<close>, CSI \<^verbatim>\<open>2;3 H\<close>,
  CSI \<^verbatim>\<open>1 m\<close>.\<close>

definition csi :: "char \<Rightarrow> Parameter list list \<Rightarrow> char \<Rightarrow> Sequence" where
  "csi leader ps final =
     \<lparr>category = CSI, leaderSymbol = leader, parameters = ps, intermediateCharacters = [],
      finalChar = final, dataString = []\<rparr>"

definition osc :: "Parameter \<Rightarrow> string \<Rightarrow> Sequence" where
  "osc code payload =
     \<lparr>category = OSC, leaderSymbol = CHR 0x00, parameters = [[code]],
      intermediateCharacters = payload, finalChar = CHR 0x00, dataString = []\<rparr>"

definition seq_DECSM_2026 :: Sequence where
  "seq_DECSM_2026 = csi (CHR ''?'') [[2026]] (CHR ''h'')"

definition seq_DECRM_2026 :: Sequence where
  "seq_DECRM_2026 = csi (CHR ''?'') [[2026]] (CHR ''l'')"

definition seq_CUP_home :: Sequence where
  "seq_CUP_home = csi (CHR 0x00) [] (CHR ''H'')"

definition seq_CUP_2_3 :: Sequence where
  "seq_CUP_2_3 = csi (CHR 0x00) [[2], [3]] (CHR ''H'')"

definition seq_SGR_bold :: Sequence where
  "seq_SGR_bold = csi (CHR 0x00) [[1]] (CHR ''m'')"

section \<open>Parameter accumulation\<close>

lemma within_limits_Nil: "within_limits []"
  by (simp add: within_limits_def)

lemma within_limits_push_group:
  "within_limits ps \<Longrightarrow> length ps < MaxParameters \<Longrightarrow> within_limits (push_group ps)"
  by (auto simp: within_limits_def push_group_def MaxParameters_def)

lemma within_limits_push_subparam:
  assumes "within_limits ps" "ps \<noteq> []" "length (last ps) < MaxParameters"
  shows "within_limits (push_subparam ps)"
proof -
  have "set (butlast ps) \<subseteq> set ps"
    by (auto dest: in_set_butlastD)
  with assms show ?thesis
    by (auto simp: within_limits_def push_subparam_def list_all_iff)
qed

lemma within_limits_accumulate_digit:
  assumes "within_limits ps"
  shows "within_limits (accumulate_digit c ps)"
proof (cases "ps = [] \<or> last ps = []")
  case True
  with assms show ?thesis by (simp add: accumulate_digit_def)
next
  case False
  have sub: "set (butlast ps) \<subseteq> set ps"
    by (auto dest: in_set_butlastD)
  from False assms have "length (last ps) \<le> MaxParameters"
    by (simp add: within_limits_def list_all_iff)
  moreover from False have "length (butlast (last ps) @ [x]) = length (last ps)"
    for x :: Parameter
    by simp
  ultimately show ?thesis
    using False assms sub by (auto simp: within_limits_def accumulate_digit_def list_all_iff)
qed

lemma within_limits_param_step:
  assumes "within_limits ps"
  shows "within_limits (param_step c ps)"
proof -
  define qs where "qs = (if ps = [] then push_group ps else ps)"
  have q: "within_limits qs" "qs \<noteq> []"
    using assms by (auto simp: qs_def push_group_def within_limits_def MaxParameters_def)
  have "param_step c ps =
     (if c = CHR '';'' then (if length qs < MaxParameters then push_group qs else qs)
      else if c = CHR '':'' then
        (if length (last qs) < MaxParameters then push_subparam qs else qs)
      else if isdigit c then accumulate_digit c qs else qs)"
    by (simp add: param_step_def qs_def Let_def)
  then show ?thesis
    using q by (simp add: within_limits_push_group within_limits_push_subparam
        within_limits_accumulate_digit)
qed

lemma params_Cons: "params (c # cs) st = params cs (param c st)"
  by (simp add: params_def)

lemma parameters_param:
  "parameters (sequence (param c st)) = param_step c (parameters (sequence st))"
  by (simp add: param_def)

lemma within_limits_params:
  "within_limits (parameters (sequence st)) \<Longrightarrow>
   within_limits (parameters (sequence (params cs st)))"
proof (induction cs arbitrary: st)
  case Nil
  then show ?case by (simp add: params_def)
next
  case (Cons c cs)
  then show ?case
    by (simp add: params_Cons parameters_param within_limits_param_step)
qed

lemma isdigit_not_separator: "isdigit c \<Longrightarrow> c \<noteq> CHR '';'' \<and> c \<noteq> CHR '':''"
  by (auto simp: isdigit_def)

lemma param_step_digit:
  "isdigit c \<Longrightarrow>
   param_step c ps = accumulate_digit c (if ps = [] then push_group ps else ps)"
  using isdigit_not_separator [of c] by (simp add: param_step_def Let_def)

lemma param_semicolon_full:
  "length (parameters (sequence st)) = MaxParameters \<Longrightarrow> param (CHR '';'') st = st"
  by (auto simp: param_def param_step_def MaxParameters_def push_group_def Let_def)

lemma param_digit_merge:
  assumes "ps = parameters (sequence st)" "ps \<noteq> []" "last ps \<noteq> []" "isdigit d"
  shows "parameters (sequence (param d st)) =
     butlast ps @ [butlast (last ps) @ [last (last ps) * 10 + digit_value d]]"
  using assms by (simp add: param_def param_step_digit accumulate_digit_def)

lemma digit_value_of_nat: "isdigit c \<Longrightarrow> digit_value c = of_nat (of_char c - 48)"
  by (simp add: isdigit_def digit_value_def of_nat_diff)

lemma params_digits:
  assumes "\<forall>c \<in> set ds. isdigit c" "parameters (sequence st) = [[of_nat n]]"
  shows "parameters (sequence (params ds st)) =
     [[of_nat (foldl (\<lambda>n c. 10 * n + (of_char c - 48)) n ds)]]"
  using assms
proof (induction ds arbitrary: st n)
  case Nil
  then show ?case by (simp add: params_def)
next
  case (Cons c cs)
  from Cons.prems have d: "isdigit c" by simp
  have "parameters (sequence (param c st)) = [[of_nat (10 * n + (of_char c - 48))]]"
    using Cons.prems(2) d
    by (simp add: parameters_param param_step_digit accumulate_digit_def digit_value_of_nat)
  with Cons show ?case
    by (simp add: params_Cons)
qed

lemmas param_eval =
  params_def param_def param_step_def push_group_def push_subparam_def accumulate_digit_def
  isdigit_def digit_value_def MaxParameters_def Sequencer_init_def

text \<open>
  C3, as the code has it. The code has no saturation: a digit is accumulated with the
  wrapping arithmetic of the 32-bit unsigned type. For a string of digits fed to
  \<open>param\<close> from the cleared state, the one parameter value is the decimal number that the
  digits denote, reduced modulo \<open>2 ^ 32\<close>; it is within the 32-bit range because it wraps.
\<close>

theorem param_digits_wrap:
  assumes "parameters (sequence st) = []" "ds \<noteq> []" "\<forall>c \<in> set ds. isdigit c"
  shows "parameters (sequence (params ds st)) = [[of_nat (decimal_value ds)]] \<and>
    unat (of_nat (decimal_value ds) :: Parameter) = decimal_value ds mod 2 ^ 32"
proof -
  obtain c cs where ds: "ds = c # cs" using assms(2) by (cases ds) auto
  with assms have d: "isdigit c" by simp
  have "parameters (sequence (param c st)) = [[of_nat (of_char c - 48)]]"
    using assms(1) d
    by (simp add: parameters_param param_step_digit push_group_def accumulate_digit_def
        digit_value_of_nat)
  then have "parameters (sequence (params cs (param c st))) =
     [[of_nat (foldl (\<lambda>n c. 10 * n + (of_char c - 48)) (of_char c - 48) cs)]]"
    using params_digits [of cs "param c st" "of_char c - 48"] assms(3) ds by simp
  then show ?thesis
    by (simp add: ds params_Cons decimal_value_def unat_of_nat)
qed

theorem param_digits_wrap_witness:
  "parameters (sequence Sequencer_init) = [] \<and>
   parameters (sequence (params ''4294967301'' Sequencer_init)) = [[5]] \<and>
   decimal_value ''4294967301'' mod 2 ^ 32 = 5"
proof -
  have d: "\<forall>c \<in> set ''4294967301''. isdigit c"
    by (simp add: isdigit_def)
  have v: "decimal_value ''4294967301'' = 4294967301"
    by (simp add: decimal_value_def)
  have i: "parameters (sequence Sequencer_init) = []"
    by (simp add: Sequencer_init_def)
  show ?thesis
    using param_digits_wrap [OF i _ d] by (simp add: v i)
qed

text \<open>
  C3, as the claim states it, fails: the digits of \<open>2 ^ 32 - 1\<close> give the maximum, and
  the digits of \<open>2 ^ 32\<close> give 0, not the maximum.
\<close>

theorem param_saturation_counterexample:
  "parameters (sequence (params ''4294967295'' Sequencer_init)) = [[4294967295]] \<and>
   parameters (sequence (params ''4294967296'' Sequencer_init)) = [[0]]"
  by (simp add: param_eval)

text \<open>
  C10: from the cleared state, any string of bytes fed to \<open>param\<close> leaves at most 16
  groups of at most 16 values each; and once there are 16 groups, a further \<^verbatim>\<open>;\<close>
  changes nothing, so that a digit that follows is accumulated into the last value of
  the last group.
\<close>

theorem param_limits_and_merge:
  assumes "parameters (sequence st) = []"
  shows "(let st' = params cs st; ps = parameters (sequence st') in
     length ps \<le> 16 \<and> (\<forall>g \<in> set ps. length g \<le> 16) \<and>
     (length ps = 16 \<longrightarrow>
        param (CHR '';'') st' = st' \<and>
        (\<forall>d. isdigit d \<longrightarrow>
           parameters (sequence (param d (param (CHR '';'') st'))) =
             butlast ps @ [butlast (last ps) @ [last (last ps) * 10 + digit_value d]])))"
proof -
  define st' where "st' = params cs st"
  define ps where "ps = parameters (sequence st')"
  have w: "within_limits ps"
    unfolding ps_def st'_def using assms within_limits_params [of st cs]
    by (simp add: within_limits_Nil)
  have a: "length ps \<le> 16" "\<forall>g \<in> set ps. length g \<le> 16"
    using w by (auto simp: within_limits_def MaxParameters_def list_all_iff)
  have b: "param (CHR '';'') st' = st'" if "length ps = 16"
    using that param_semicolon_full [of st'] by (simp add: ps_def MaxParameters_def)
  have c: "parameters (sequence (param d (param (CHR '';'') st'))) =
             butlast ps @ [butlast (last ps) @ [last (last ps) * 10 + digit_value d]]"
    if "length ps = 16" "isdigit d" for d
  proof -
    from that have ne: "ps \<noteq> []" by auto
    with w have "last ps \<noteq> []" by (auto simp: within_limits_def list_all_iff)
    with ne that show ?thesis
      using param_digit_merge [of ps st' d] b by (simp add: ps_def)
  qed
  show ?thesis
    using a b c unfolding st'_def [symmetric] Let_def ps_def [symmetric] by blast
qed

theorem param_limits_and_merge_witness:
  "parameters (sequence Sequencer_init) = [] \<and>
   parameters (sequence (params ''1;2;3;4;5;6;7;8;9;10;11;12;13;14;15;16'' Sequencer_init)) =
     [[1], [2], [3], [4], [5], [6], [7], [8], [9], [10], [11], [12], [13], [14], [15], [16]] \<and>
   parameters (sequence (param (CHR ''7'') (param (CHR '';'')
       (params ''1;2;3;4;5;6;7;8;9;10;11;12;13;14;15;16'' Sequencer_init)))) =
     [[1], [2], [3], [4], [5], [6], [7], [8], [9], [10], [11], [12], [13], [14], [15], [167]]"
proof -
  have i: "parameters (sequence Sequencer_init) = []"
    by (simp add: Sequencer_init_def)
  have p: "parameters (sequence (params ''1;2;3;4;5;6;7;8;9;10;11;12;13;14;15;16'' Sequencer_init)) =
     [[1], [2], [3], [4], [5], [6], [7], [8], [9], [10], [11], [12], [13], [14], [15], [16]]"
    by (simp add: param_eval)
  have d: "isdigit (CHR ''7'')" "digit_value (CHR ''7'') = 7"
    by (simp_all add: isdigit_def digit_value_def)
  show ?thesis
    using param_limits_and_merge [OF i, of "''1;2;3;4;5;6;7;8;9;10;11;12;13;14;15;16''"] d
    by (auto simp: Let_def p i)
qed

section \<open>The dispatcher only appends to the screen\<close>

text \<open>
  Every function of the dispatcher returns a value that does not depend on the calls
  the screen has received, and appends its own calls to them.
\<close>

lemma fold_appends:
  assumes "\<And>i s. step i s = s @ step i []"
  shows "fold step xs s = s @ fold step xs []"
proof (induction xs arbitrary: s)
  case Nil
  then show ?case by simp
next
  case (Cons x xs)
  have "fold step (x # xs) s = fold step xs (step x s)" by simp
  also have "\<dots> = step x s @ fold step xs []" by (rule Cons.IH)
  also have "\<dots> = s @ step x [] @ fold step xs []" using assms [of x s] by simp
  also have "step x [] @ fold step xs [] = fold step xs (step x [])"
    by (rule Cons.IH [symmetric])
  finally show ?case by simp
qed

lemma setModeDEC_appends:
  "setModeDEC seq i e scr = (fst (setModeDEC seq i e []), scr @ snd (setModeDEC seq i e []))"
  by (simp add: setModeDEC_def call_def split: option.split)

lemma setAnsiMode_appends:
  "setAnsiMode seq i e scr = (fst (setAnsiMode seq i e []), scr @ snd (setAnsiMode seq i e []))"
  by (simp add: setAnsiMode_def call_def)

lemma fold_setModeDEC_appends:
  "fold (\<lambda>i s. snd (setModeDEC seq i e s)) xs scr =
   scr @ fold (\<lambda>i s. snd (setModeDEC seq i e s)) xs []"
  by (rule fold_appends) (simp add: setModeDEC_def call_def split: option.split)

lemma fold_setAnsiMode_appends:
  "fold (\<lambda>i s. snd (setAnsiMode seq i e s)) xs scr =
   scr @ fold (\<lambda>i s. snd (setAnsiMode seq i e s)) xs []"
  by (rule fold_appends) (simp add: setAnsiMode_def call_def)

lemma dispatchSGR_body_appends:
  "dispatchSGR_body seq i scr =
   (fst (dispatchSGR_body seq i []), scr @ snd (dispatchSGR_body seq i []))"
  by (simp add: dispatchSGR_body_def Let_def call_def split: prod.split option.split)

lemma dispatchSGR_loop_appends:
  "dispatchSGR_loop seq i scr = scr @ dispatchSGR_loop seq i []"
proof (induction "parameterCount seq - i" arbitrary: i scr rule: less_induct)
  case less
  show ?case
  proof (cases "i < parameterCount seq")
    case False
    then show ?thesis by (simp add: dispatchSGR_loop.simps)
  next
    case True
    define j where "j = Suc (fst (dispatchSGR_body seq i []))"
    define b where "b = snd (dispatchSGR_body seq i [])"
    have body: "dispatchSGR_body seq i scr = (fst (dispatchSGR_body seq i []), scr @ b)"
      unfolding b_def by (rule dispatchSGR_body_appends)
    have "i \<le> fst (dispatchSGR_body seq i [])"
      by (rule dispatchSGR_body_advances)
    with True have less_j: "parameterCount seq - j < parameterCount seq - i"
      by (simp add: j_def)
    have "dispatchSGR_loop seq i scr = dispatchSGR_loop seq j (scr @ b)"
      using True by (subst dispatchSGR_loop.simps) (simp add: body j_def)
    also have "\<dots> = (scr @ b) @ dispatchSGR_loop seq j []"
      by (rule less.hyps [OF less_j])
    finally have left: "dispatchSGR_loop seq i scr = scr @ (b @ dispatchSGR_loop seq j [])"
      by simp
    have "dispatchSGR_loop seq i [] = dispatchSGR_loop seq j b"
      using True by (subst dispatchSGR_loop.simps) (simp add: j_def b_def)
    also have "\<dots> = b @ dispatchSGR_loop seq j []"
      by (rule less.hyps [OF less_j])
    finally show ?thesis
      using left by simp
  qed
qed

lemma dispatchSGR_appends:
  "dispatchSGR seq scr = (fst (dispatchSGR seq []), scr @ snd (dispatchSGR seq []))"
  using dispatchSGR_loop_appends [of seq 0 scr] by (simp add: dispatchSGR_def call_def)

lemma ED_step_appends: "ED_step seq i s = s @ ED_step seq i []"
  by (simp add: ED_step_def call_def)

lemma impl_ED_appends:
  "impl_ED seq scr = (fst (impl_ED seq []), scr @ snd (impl_ED seq []))"
  using fold_appends [of "ED_step seq" _ scr, OF ED_step_appends]
  by (simp add: impl_ED_def call_def)

lemma impl_appends:
  "impl_CPR seq scr = (fst (impl_CPR seq []), scr @ snd (impl_CPR seq []))"
  "impl_DECRQPSR seq scr = (fst (impl_DECRQPSR seq []), scr @ snd (impl_DECRQPSR seq []))"
  "impl_DECSCUSR seq scr = (fst (impl_DECSCUSR seq []), scr @ snd (impl_DECSCUSR seq []))"
  "impl_EL seq scr = (fst (impl_EL seq []), scr @ snd (impl_EL seq []))"
  "impl_TBC seq scr = (fst (impl_TBC seq []), scr @ snd (impl_TBC seq []))"
  "impl_DECRQSS seq scr = (fst (impl_DECRQSS seq []), scr @ snd (impl_DECRQSS seq []))"
  "saveDECModes seq scr = (fst (saveDECModes seq []), scr @ snd (saveDECModes seq []))"
  "restoreDECModes seq scr = (fst (restoreDECModes seq []), scr @ snd (restoreDECModes seq []))"
  "impl_WINDOWMANIP seq scr =
     (fst (impl_WINDOWMANIP seq []), scr @ snd (impl_WINDOWMANIP seq []))"
  "impl_XTSMGRAPHICS seq scr =
     (fst (impl_XTSMGRAPHICS seq []), scr @ snd (impl_XTSMGRAPHICS seq []))"
  by (simp_all add: impl_CPR_def impl_DECRQPSR_def impl_DECSCUSR_def impl_EL_def impl_TBC_def
      impl_DECRQSS_def saveDECModes_def restoreDECModes_def impl_WINDOWMANIP_def
      impl_XTSMGRAPHICS_def Let_def call_def split: option.split prod.split)

lemma osc_appends:
  "setOrRequestDynamicColor E seq scr n =
     (fst (setOrRequestDynamicColor E seq [] n), scr @ snd (setOrRequestDynamicColor E seq [] n))"
  "clipboard E seq scr = (fst (clipboard E seq []), scr @ snd (clipboard E seq []))"
  "impl_NOTIFY E seq scr = (fst (impl_NOTIFY E seq []), scr @ snd (impl_NOTIFY E seq []))"
  "impl_HYPERLINK E seq scr = (fst (impl_HYPERLINK E seq []), scr @ snd (impl_HYPERLINK E seq []))"
  by (simp_all add: setOrRequestDynamicColor_def clipboard_def impl_NOTIFY_def
      impl_HYPERLINK_def Let_def call_def split: option.split)

lemma apply_switch_appends:
  "apply_switch E f seq scr = (fst (apply_switch E f seq []), scr @ snd (apply_switch E f seq []))"
proof -
  note sub = impl_appends [of seq scr] osc_appends [of E seq scr] impl_ED_appends [of seq scr]
    dispatchSGR_appends [of seq scr]
    fold_setModeDEC_appends [of seq _ _ scr] fold_setAnsiMode_appends [of seq _ _ scr]
  show ?thesis
    by (cases f) (simp_all add: apply_switch_def call_def sub)
qed

lemma apply_switch_calls:
  "snd (apply_switch E f seq scr) = scr @ calls_of E f seq"
  using apply_switch_appends [of E f seq scr] by (simp add: calls_of_def)

lemma apply_switch_result:
  "fst (apply_switch E f seq scr) = fst (apply_switch E f seq [])"
  using apply_switch_appends [of E f seq scr] by simp

section \<open>Synchronized output\<close>

lemma fold_setModeDEC_calls:
  "fold (\<lambda>i s. snd (setModeDEC seq i e s)) xs scr =
   scr @ map (\<lambda>m. setMode m e) (List.map_filter (\<lambda>i. toDECMode (seq_param seq i)) xs)"
  by (induction xs arbitrary: scr)
    (simp_all add: List.map_filter_simps setModeDEC_def call_def split: option.split)

lemma calls_of_DECSM:
  "calls_of E DECSM seq = map (\<lambda>m. setMode m True) (collectDECModes seq)"
  by (simp add: calls_of_def apply_switch_def fold_setModeDEC_calls collectDECModes_def)

lemma calls_of_DECRM:
  "calls_of E DECRM seq = map (\<lambda>m. setMode m False) (collectDECModes seq)"
  by (simp add: calls_of_def apply_switch_def fold_setModeDEC_calls collectDECModes_def)

lemma toDECMode_2026: "toDECMode 2026 = Some BatchedRendering"
  by (simp add: toDECMode_def DECModes_def)



lemma Sequencer_apply_direct:
  "\<not> (batching st \<and> isBatchable E f) \<Longrightarrow>
   snd (Sequencer_apply E f seq st) = st\<lparr>screen := screen st @ calls_of E f seq\<rparr>"
  by (auto simp: Sequencer_apply_def apply_switch_calls)

lemma Sequencer_apply_queued:
  "batching st \<Longrightarrow> isBatchable E f \<Longrightarrow>
   Sequencer_apply E f seq st =
     (Ok, st\<lparr>batchedSequences := batchedSequences st @ [BatchedSequence seq]\<rparr>)"
  by (simp add: Sequencer_apply_def)

lemma flush_entry_direct:
  assumes "\<not> batching st"
  shows "\<not> batching (flush_entry E b st)"
    and "batchedSequences (flush_entry E b st) = batchedSequences st"
    and "sequence (flush_entry E b st) = sequence st"
    and "screen (flush_entry E b st) = screen st @ entry_calls E b"
  using assms
  by (auto simp: flush_entry_def entry_calls_def print_def call_def Sequencer_apply_direct
      split: Batchable.split option.split)

lemma fold_flush_entry_direct:
  assumes "\<not> batching st"
  shows "\<not> batching (fold (flush_entry E) q st) \<and>
    batchedSequences (fold (flush_entry E) q st) = batchedSequences st \<and>
    sequence (fold (flush_entry E) q st) = sequence st \<and>
    screen (fold (flush_entry E) q st) = screen st @ concat (map (entry_calls E) q)"
  using assms
proof (induction q arbitrary: st)
  case Nil
  then show ?case by simp
next
  case (Cons b q)
  from Cons.prems have "\<not> batching (flush_entry E b st)"
    by (rule flush_entry_direct)
  from Cons.IH [OF this] show ?case
    using Cons.prems by (simp add: flush_entry_direct)
qed

lemma flushBatchedSequences_direct:
  assumes "\<not> batching st"
  shows "\<not> batching (flushBatchedSequences E st)"
    and "batchedSequences (flushBatchedSequences E st) = []"
    and "sequence (flushBatchedSequences E st) = sequence st"
    and "screen (flushBatchedSequences E st) =
           screen st @ concat (map (entry_calls E) (batchedSequences st))"
  using fold_flush_entry_direct [OF assms, of E "batchedSequences st"]
  by (simp_all add: flushBatchedSequences_def)

lemma handleSequence_DECSM:
  assumes "functionDefinition E (sequence st) = Some DECSM"
    and "containsParameter (sequence st) 2026"
    and "\<not> isBatchable E DECSM"
  shows "handleSequence E st =
     st\<lparr>instructionCounter := instructionCounter st + 1, batching := True,
        screen := screen st @ calls_of E DECSM (sequence st) @ [verifyState]\<rparr>"
  using assms by (simp add: handleSequence_def Let_def Sequencer_apply_direct call_def)

lemma handleSequence_DECSM_queued:
  assumes "functionDefinition E (sequence st) = Some DECSM"
    and "containsParameter (sequence st) 2026"
    and "isBatchable E DECSM"
  shows "handleSequence E st =
     st\<lparr>instructionCounter := instructionCounter st + 1, batching := True,
        batchedSequences := batchedSequences st @ [BatchedSequence (sequence st)],
        screen := screen st @ [verifyState]\<rparr>"
  using assms by (simp add: handleSequence_def Let_def Sequencer_apply_queued call_def)

lemma handleSequence_DECRM:
  assumes "functionDefinition E (sequence st) = Some DECRM"
    and "containsParameter (sequence st) 2026"
  shows "\<not> batching (handleSequence E st)"
    and "batchedSequences (handleSequence E st) = []"
    and "sequence (handleSequence E st) = sequence st"
    and "screen (handleSequence E st) =
           screen st @ concat (map (entry_calls E) (batchedSequences st)) @
           calls_of E DECRM (sequence st) @ [verifyState]"
proof -
  define st1 where
    "st1 = st\<lparr>instructionCounter := instructionCounter st + 1, batching := False\<rparr>"
  define st2 where "st2 = flushBatchedSequences E st1"
  have nb: "\<not> batching st1" by (simp add: st1_def)
  note fl = flushBatchedSequences_direct [OF nb, of E, folded st2_def]
  have h: "handleSequence E st =
      st2\<lparr>screen := screen st2 @ calls_of E DECRM (sequence st) @ [verifyState]\<rparr>"
    using assms fl(1)
    by (simp add: handleSequence_def Let_def Sequencer_apply_direct call_def st1_def st2_def)
  show "\<not> batching (handleSequence E st)"
    and "batchedSequences (handleSequence E st) = []"
    and "sequence (handleSequence E st) = sequence st"
    and "screen (handleSequence E st) =
           screen st @ concat (map (entry_calls E) (batchedSequences st)) @
           calls_of E DECRM (sequence st) @ [verifyState]"
    using fl by (simp_all add: h) (simp_all add: st1_def)
qed


lemmas sample_eval =
  SampleExternals_def sample_functionDefinition_def csi_def seq_DECSM_2026_def
  seq_DECRM_2026_def seq_CUP_home_def seq_CUP_2_3_def seq_SGR_bold_def Sequencer_init_def
  containsParameter_def parameterCount_def seq_param_def param_or_def subParameterCount_def
  subparam_def

lemma sample_resolves:
  "functionDefinition SampleExternals seq_DECSM_2026 = Some DECSM"
  "functionDefinition SampleExternals seq_DECRM_2026 = Some DECRM"
  "functionDefinition SampleExternals seq_CUP_home = Some CUP"
  "functionDefinition SampleExternals seq_CUP_2_3 = Some CUP"
  "functionDefinition SampleExternals seq_SGR_bold = Some SGR"
  by (simp_all add: sample_eval)

lemma sample_batchable:
  "\<not> isBatchable SampleExternals DECSM" "\<not> isBatchable SampleExternals DECRM"
  "isBatchable SampleExternals CUP" "isBatchable SampleExternals SGR"
  by (simp_all add: SampleExternals_def)

lemma sample_contains:
  "containsParameter seq_DECSM_2026 2026" "containsParameter seq_DECRM_2026 2026"
  "\<not> containsParameter seq_CUP_home 2026" "\<not> containsParameter seq_CUP_2_3 2026"
  "\<not> containsParameter seq_SGR_bold 2026"
  by (simp_all add: sample_eval)

lemma sample_modes:
  "collectDECModes seq_DECSM_2026 = [BatchedRendering]"
  "collectDECModes seq_DECRM_2026 = [BatchedRendering]"
  by (simp_all add: collectDECModes_def List.map_filter_simps toDECMode_2026 sample_eval)

lemma sample_calls:
  "calls_of SampleExternals CUP seq_CUP_home = [moveCursorTo (Coordinate 1 1)]"
  "calls_of SampleExternals CUP seq_CUP_2_3 = [moveCursorTo (Coordinate 2 3)]"
  "calls_of SampleExternals SGR seq_SGR_bold = [setGraphicsRendition Bold]"
  by (simp_all add: calls_of_def apply_switch_def call_def dispatchSGR_def
      dispatchSGR_loop.simps dispatchSGR_body_def SGR_calls_def sample_eval)




lemma handleSequence_batched:
  assumes "batchable_sequence E (sequence st) f" "batching st"
  shows "handleSequence E st =
     st\<lparr>instructionCounter := instructionCounter st + 1,
        batchedSequences := batchedSequences st @ [BatchedSequence (sequence st)],
        screen := screen st @ [verifyState]\<rparr>"
  using assms by (auto simp: batchable_sequence_def handleSequence_def Let_def call_def)

lemma handleSequence_immediate:
  assumes "functionDefinition E (sequence st) = Some f"
    and "\<not> ((f = DECSM \<or> f = DECRM) \<and> containsParameter (sequence st) 2026)"
    and "\<not> (batching st \<and> isBatchable E f)"
  shows "handleSequence E st =
     st\<lparr>instructionCounter := instructionCounter st + 1,
        screen := screen st @ calls_of E f (sequence st) @ [verifyState]\<rparr>"
proof -
  have "\<not> (batching (st\<lparr>instructionCounter := instructionCounter st + 1\<rparr>) \<and> isBatchable E f)"
    using assms(3) by simp
  note d = Sequencer_apply_direct [OF this]
  show ?thesis
    using assms by (auto simp: handleSequence_def Let_def call_def d)
qed

lemma feeds_Cons: "feeds E (s # ss) st = feeds E ss (feed E s st)"
  by (simp add: feeds_def)

lemma feeds_Nil: "feeds E [] st = st"
  by (simp add: feeds_def)

lemma feed_batched:
  assumes "batchable_sequence E s f" "batching st"
  shows "batching (feed E s st)"
    and "batchedSequences (feed E s st) = batchedSequences st @ [BatchedSequence s]"
    and "screen (feed E s st) = screen st @ [verifyState]"
  using handleSequence_batched [of E "st\<lparr>sequence := s\<rparr>" f] assms
  by (simp_all add: feed_def)

lemma feed_immediate:
  assumes "batchable_sequence E s f" "\<not> batching st"
  shows "\<not> batching (feed E s st)"
    and "batchedSequences (feed E s st) = batchedSequences st"
    and "screen (feed E s st) = screen st @ calls_of E f s @ [verifyState]"
  using handleSequence_immediate [of E "st\<lparr>sequence := s\<rparr>" f] assms
  by (simp_all add: feed_def batchable_sequence_def)

lemma feed_DECSM:
  assumes "functionDefinition E s = Some DECSM" "containsParameter s 2026"
  shows "batching (feed E s st)"
    and "batchedSequences (feed E s st) =
           batchedSequences st @ (if isBatchable E DECSM then [BatchedSequence s] else [])"
    and "screen (feed E s st) =
           screen st @ (if isBatchable E DECSM then [] else calls_of E DECSM s) @ [verifyState]"
  using handleSequence_DECSM [of E "st\<lparr>sequence := s\<rparr>"]
    handleSequence_DECSM_queued [of E "st\<lparr>sequence := s\<rparr>"] assms
  by (cases "isBatchable E DECSM"; simp add: feed_def)+

lemma feed_DECRM:
  assumes "functionDefinition E s = Some DECRM" "containsParameter s 2026"
  shows "\<not> batching (feed E s st)"
    and "batchedSequences (feed E s st) = []"
    and "screen (feed E s st) =
           screen st @ concat (map (entry_calls E) (batchedSequences st)) @
           calls_of E DECRM s @ [verifyState]"
  using handleSequence_DECRM [of E "st\<lparr>sequence := s\<rparr>"] assms
  by (simp_all add: feed_def)

lemma entry_calls_sequence:
  "functionDefinition E s = Some f \<Longrightarrow> entry_calls E (BatchedSequence s) = calls_of E f s"
  by (simp add: entry_calls_def)

text \<open>
  C2, as the code has it. Let DECSM 2026 and DECRM 2026 be sequences that resolve to
  the two mode switches and contain 2026, let A, B, C be batchable sequences other
  than these, and let batching be off and the queue empty. Both streams hand the
  screen the same calls for A, for B and for C, in this order, but not the same
  sequence of calls. In the stream DECSM 2026; A; B; C; DECRM 2026 the screen
  receives \<open>verifyState\<close> once for each sequence as it arrives, then the calls of A, B
  and C when DECRM 2026 flushes the queue, and the reset-mode calls of DECRM 2026 after
  them. In the stream DECSM 2026; DECRM 2026; A; B; C the reset-mode calls of DECRM 2026
  come before the calls of A, B and C, each of which is followed by its \<open>verifyState\<close>.
  The set-mode calls of DECSM 2026 reach the screen at once, or with the flush if DECSM
  is itself batchable.
\<close>

theorem batched_stream_calls:
  assumes sm: "functionDefinition E sm = Some DECSM" "containsParameter sm 2026"
    and rm: "functionDefinition E rm = Some DECRM" "containsParameter rm 2026"
    and a: "batchable_sequence E a fa"
    and b: "batchable_sequence E b fb"
    and c: "batchable_sequence E c fc"
    and st: "\<not> batching st" "batchedSequences st = []"
  shows "(let now = (if isBatchable E DECSM then [] else calls_of E DECSM sm);
              later = (if isBatchable E DECSM then calls_of E DECSM sm else [])
          in screen (feeds E [sm, a, b, c, rm] st) =
               screen st @ now @ [verifyState, verifyState, verifyState, verifyState] @ later @
               calls_of E fa a @ calls_of E fb b @ calls_of E fc c @
               calls_of E DECRM rm @ [verifyState] \<and>
             screen (feeds E [sm, rm, a, b, c] st) =
               screen st @ now @ [verifyState] @ later @ calls_of E DECRM rm @ [verifyState] @
               calls_of E fa a @ [verifyState] @ calls_of E fb b @ [verifyState] @
               calls_of E fc c @ [verifyState])"
proof -
  define s1 where "s1 = feed E sm st"
  define s2 where "s2 = feed E a s1"
  define s3 where "s3 = feed E b s2"
  define s4 where "s4 = feed E c s3"
  have fa: "functionDefinition E a = Some fa" and fb: "functionDefinition E b = Some fb"
    and fc: "functionDefinition E c = Some fc"
    using a b c by (simp_all add: batchable_sequence_def)
  note e = entry_calls_sequence [OF fa] entry_calls_sequence [OF fb] entry_calls_sequence [OF fc]
    entry_calls_sequence [OF sm(1)]
  note f1 = feed_DECSM [OF sm, of st, folded s1_def]
  note f2 = feed_batched [OF a f1(1), folded s2_def]
  note f3 = feed_batched [OF b f2(1), folded s3_def]
  note f4 = feed_batched [OF c f3(1), folded s4_def]
  note f5 = feed_DECRM [OF rm, of s4]
  have first: "screen (feeds E [sm, a, b, c, rm] st) =
      screen st @ (if isBatchable E DECSM then [] else calls_of E DECSM sm) @
      [verifyState, verifyState, verifyState, verifyState] @
      (if isBatchable E DECSM then calls_of E DECSM sm else []) @
      calls_of E fa a @ calls_of E fb b @ calls_of E fc c @ calls_of E DECRM rm @ [verifyState]"
    using st by (simp add: feeds_Cons feeds_Nil s1_def [symmetric] s2_def [symmetric]
        s3_def [symmetric] s4_def [symmetric] f1 f2 f3 f4 f5 e)
  define t2 where "t2 = feed E rm s1"
  define t3 where "t3 = feed E a t2"
  define t4 where "t4 = feed E b t3"
  note g2 = feed_DECRM [OF rm, of s1, folded t2_def]
  note g3 = feed_immediate [OF a g2(1), folded t3_def]
  note g4 = feed_immediate [OF b g3(1), folded t4_def]
  note g5 = feed_immediate [OF c g4(1)]
  have second: "screen (feeds E [sm, rm, a, b, c] st) =
      screen st @ (if isBatchable E DECSM then [] else calls_of E DECSM sm) @ [verifyState] @
      (if isBatchable E DECSM then calls_of E DECSM sm else []) @
      calls_of E DECRM rm @ [verifyState] @
      calls_of E fa a @ [verifyState] @ calls_of E fb b @ [verifyState] @
      calls_of E fc c @ [verifyState]"
    using st by (simp add: feeds_Cons feeds_Nil s1_def [symmetric] t2_def [symmetric]
        t3_def [symmetric] t4_def [symmetric] f1 g2 g3 g4 g5 e)
  show ?thesis
    unfolding Let_def using first second by simp
qed

lemma sample_batchable_sequences:
  "batchable_sequence SampleExternals seq_CUP_home CUP"
  "batchable_sequence SampleExternals seq_CUP_2_3 CUP"
  "batchable_sequence SampleExternals seq_SGR_bold SGR"
  by (simp_all add: batchable_sequence_def sample_resolves sample_batchable)

lemma sample_calls_modes:
  "calls_of SampleExternals DECSM seq_DECSM_2026 = [setMode BatchedRendering True]"
  "calls_of SampleExternals DECRM seq_DECRM_2026 = [setMode BatchedRendering False]"
  by (simp_all add: calls_of_DECSM calls_of_DECRM sample_modes)

theorem batched_stream_calls_witness:
  "screen (feeds SampleExternals
      [seq_DECSM_2026, seq_CUP_home, seq_CUP_2_3, seq_SGR_bold, seq_DECRM_2026] Sequencer_init) =
     [setMode BatchedRendering True, verifyState, verifyState, verifyState, verifyState,
      moveCursorTo (Coordinate 1 1), moveCursorTo (Coordinate 2 3), setGraphicsRendition Bold,
      setMode BatchedRendering False, verifyState] \<and>
   screen (feeds SampleExternals
      [seq_DECSM_2026, seq_DECRM_2026, seq_CUP_home, seq_CUP_2_3, seq_SGR_bold] Sequencer_init) =
     [setMode BatchedRendering True, verifyState, setMode BatchedRendering False, verifyState,
      moveCursorTo (Coordinate 1 1), verifyState, moveCursorTo (Coordinate 2 3), verifyState,
      setGraphicsRendition Bold, verifyState]"
proof -
  have i: "\<not> batching Sequencer_init" "batchedSequences Sequencer_init = []"
    "screen Sequencer_init = []"
    by (simp_all add: Sequencer_init_def)
  show ?thesis
    using batched_stream_calls [OF sample_resolves(1) sample_contains(1) sample_resolves(2)
        sample_contains(2) sample_batchable_sequences i(1,2)]
    by (simp add: Let_def sample_batchable sample_calls sample_calls_modes i)
qed

lemma sample_stream_first:
  "screen (feeds SampleExternals
      [seq_DECSM_2026, seq_CUP_home, seq_CUP_2_3, seq_SGR_bold, seq_DECRM_2026] Sequencer_init) =
     [setMode BatchedRendering True, verifyState, verifyState, verifyState, verifyState,
      moveCursorTo (Coordinate 1 1), moveCursorTo (Coordinate 2 3), setGraphicsRendition Bold,
      setMode BatchedRendering False, verifyState]"
  by (simp add: feeds_def feed_def handleSequence_def Let_def Sequencer_apply_def
      flushBatchedSequences_def flush_entry_def apply_switch_def call_def setModeDEC_def
      toDECMode_def DECModes_def dispatchSGR_def dispatchSGR_loop.simps dispatchSGR_body_def
      SGR_calls_def sample_eval)

lemma sample_stream_second:
  "screen (feeds SampleExternals
      [seq_DECSM_2026, seq_DECRM_2026, seq_CUP_home, seq_CUP_2_3, seq_SGR_bold] Sequencer_init) =
     [setMode BatchedRendering True, verifyState, setMode BatchedRendering False, verifyState,
      moveCursorTo (Coordinate 1 1), verifyState, moveCursorTo (Coordinate 2 3), verifyState,
      setGraphicsRendition Bold, verifyState]"
  by (simp add: feeds_def feed_def handleSequence_def Let_def Sequencer_apply_def
      flushBatchedSequences_def flush_entry_def apply_switch_def call_def setModeDEC_def
      toDECMode_def DECModes_def dispatchSGR_def dispatchSGR_loop.simps dispatchSGR_body_def
      SGR_calls_def sample_eval)

text \<open>
  C2, as the claim states it, fails: for the two sample streams the two sequences
  of screen calls differ, and they still differ when the \<open>verifyState\<close> calls are
  left out, by the place of \<open>setMode BatchedRendering False\<close>.
\<close>

theorem batched_stream_counterexample:
  "screen (feeds SampleExternals
      [seq_DECSM_2026, seq_CUP_home, seq_CUP_2_3, seq_SGR_bold, seq_DECRM_2026] Sequencer_init) \<noteq>
   screen (feeds SampleExternals
      [seq_DECSM_2026, seq_DECRM_2026, seq_CUP_home, seq_CUP_2_3, seq_SGR_bold] Sequencer_init) \<and>
   removeAll verifyState (screen (feeds SampleExternals
      [seq_DECSM_2026, seq_CUP_home, seq_CUP_2_3, seq_SGR_bold, seq_DECRM_2026] Sequencer_init)) =
     [setMode BatchedRendering True, moveCursorTo (Coordinate 1 1),
      moveCursorTo (Coordinate 2 3), setGraphicsRendition Bold, setMode BatchedRendering False] \<and>
   removeAll verifyState (screen (feeds SampleExternals
      [seq_DECSM_2026, seq_DECRM_2026, seq_CUP_home, seq_CUP_2_3, seq_SGR_bold] Sequencer_init)) =
     [setMode BatchedRendering True, setMode BatchedRendering False,
      moveCursorTo (Coordinate 1 1), moveCursorTo (Coordinate 2 3), setGraphicsRendition Bold]"
  by (simp add: sample_stream_first sample_stream_second)

section \<open>The current sequence after a dispatch\<close>

lemma sequence_Sequencer_apply:
  "sequence (snd (Sequencer_apply E f seq st)) = sequence st"
  by (simp add: Sequencer_apply_def)

lemma sequence_handleSequence: "sequence (handleSequence E st) = sequence st"
proof -
  define st1 where "st1 = st\<lparr>instructionCounter := instructionCounter st + 1\<rparr>"
  have "sequence (flushBatchedSequences E (st1\<lparr>batching := False\<rparr>)) = sequence st"
    using flushBatchedSequences_direct(3) [of "st1\<lparr>batching := False\<rparr>" E]
    by (simp add: st1_def)
  then show ?thesis
    by (simp add: handleSequence_def Let_def sequence_Sequencer_apply st1_def [symmetric]
        split: option.split)
      (simp add: st1_def)
qed

text \<open>
  C5, as the code has it. \<open>handleSequence\<close> leaves the current sequence as it is, and
  so do \<open>dispatchCSI\<close> and \<open>dispatchESC\<close> once they have set the category and the
  final char; the sequence is cleared by the producer's next \<open>clear\<close>. Only
  \<open>dispatchOSC\<close> clears it itself: after it the sequence has no parameters, no
  intermediates, no data string, no leader, and final char 0.
\<close>

theorem sequence_after_dispatch:
  "sequence (handleSequence E st) = sequence st \<and>
   sequence (dispatchCSI E final st) = (sequence st)\<lparr>category := CSI, finalChar := final\<rparr> \<and>
   sequence (dispatchESC E final st) = (sequence st)\<lparr>category := ESC, finalChar := final\<rparr> \<and>
   parameters (sequence (dispatchOSC E st)) = [] \<and>
   intermediateCharacters (sequence (dispatchOSC E st)) = [] \<and>
   dataString (sequence (dispatchOSC E st)) = [] \<and>
   leaderSymbol (sequence (dispatchOSC E st)) = CHR 0x00 \<and>
   finalChar (sequence (dispatchOSC E st)) = CHR 0x00 \<and>
   sequence (clear (dispatchCSI E final st)) = Sequence_clear (sequence (dispatchCSI E final st))"
  by (simp add: sequence_handleSequence dispatchCSI_def dispatchESC_def dispatchOSC_def
      clear_def Sequence_clear_def Let_def split: prod.split)

text \<open>
  C5, as the claim states it, fails: after \<^verbatim>\<open>clear\<close>, the parameter bytes \<^verbatim>\<open>2;3\<close> and
  \<^verbatim>\<open>dispatchCSI('H')\<close>, which runs \<open>handleSequence\<close>, the current sequence still holds
  the parameters and the final char.
\<close>

theorem sequence_not_cleared_counterexample:
  "sequence (dispatchCSI SampleExternals (CHR ''H'') (params ''2;3'' (clear Sequencer_init))) =
     seq_CUP_2_3 \<and>
   finalChar seq_CUP_2_3 = CHR ''H'' \<and> parameters seq_CUP_2_3 = [[2], [3]] \<and>
   sequence (handleSequence SampleExternals (Sequencer_init\<lparr>sequence := seq_CUP_2_3\<rparr>)) =
     seq_CUP_2_3"
  by (simp add: sequence_handleSequence dispatchCSI_def clear_def Sequence_clear_def param_eval
      seq_CUP_2_3_def csi_def)

section \<open>The serialised form\<close>

lemma to_string_digit: "n < 10 \<Longrightarrow> to_string n = [char_of (48 + n)]"
  by (simp add: to_string.simps)

lemma to_string_more: "\<not> n < 10 \<Longrightarrow> to_string n = to_string (n div 10) @ [char_of (48 + n mod 10)]"
  by (subst to_string.simps) simp

lemma digit_chars:
  "char_of (48 :: nat) = CHR ''0''" "char_of (49 :: nat) = CHR ''1''"
  "char_of (50 :: nat) = CHR ''2''" "char_of (51 :: nat) = CHR ''3''"
  "char_of (52 :: nat) = CHR ''4''" "char_of (53 :: nat) = CHR ''5''"
  "char_of (54 :: nat) = CHR ''6''" "char_of (55 :: nat) = CHR ''7''"
  "char_of (56 :: nat) = CHR ''8''" "char_of (57 :: nat) = CHR ''9''"
  by (simp_all add: char_of_def bit_Suc_0_iff)

text \<open>
  C6 fails on the code. \<open>raw\<close> does not write the leader: CSI \<^verbatim>\<open>? 2026 h\<close> and CSI
  \<^verbatim>\<open>2026 h\<close> have the same serialised form, so that no producer can give back both. And
  \<open>raw\<close> leaves out the first sub-parameter of a group: \<^verbatim>\<open>38:2:10:20:30\<close> is written as
  \<^verbatim>\<open>38:10:20:30\<close>.
\<close>

theorem raw_loses_leader_and_subparameter:
  "raw (csi (CHR ''?'') [[2026]] (CHR ''h'')) = CHR 0x1B # ''[2026h'' \<and>
   raw (csi (CHR 0x00) [[2026]] (CHR ''h'')) = CHR 0x1B # ''[2026h'' \<and>
   csi (CHR ''?'') [[2026]] (CHR ''h'') \<noteq> csi (CHR 0x00) [[2026]] (CHR ''h'') \<and>
   raw (csi (CHR 0x00) [[38, 2, 10, 20, 30]] (CHR ''m'')) = CHR 0x1B # ''[38:10:20:30m''"
  by (simp add: raw_def raw_group_def csi_def parameterCount_def seq_param_def
      subParameterCount_def subparam_def to_string_digit to_string_more upt_rec digit_chars)

section \<open>Control codes while batching\<close>

lemma synthetic_fields:
  "category (synthetic c0 st) = C0" "finalChar (synthetic c0 st) = c0"
  "parameters (synthetic c0 st) = []"
  by (simp_all add: synthetic_def Sequence_clear_def)

lemma synthetic_not_2026: "\<not> containsParameter (synthetic c0 st) v"
  by (simp add: containsParameter_def synthetic_fields)

lemma execute_batching:
  assumes "batching st"
  shows "execute E c0 st = handleSequence E (st\<lparr>sequence := synthetic c0 st\<rparr>)"
  using assms by (simp add: execute_def executeControlFunction_def synthetic_def)

lemma execute_batching_queued:
  assumes "batching st" "functionDefinition E (synthetic c0 st) = Some f" "isBatchable E f"
  shows "execute E c0 st =
     st\<lparr>sequence := synthetic c0 st, instructionCounter := instructionCounter st + 1,
        batchedSequences := batchedSequences st @ [BatchedSequence (synthetic c0 st)],
        screen := screen st @ [verifyState]\<rparr>"
proof -
  have "batchable_sequence E (sequence (st\<lparr>sequence := synthetic c0 st\<rparr>)) f"
    using assms by (simp add: batchable_sequence_def synthetic_not_2026)
  from handleSequence_batched [OF this] assms(1) show ?thesis
    by (simp add: execute_batching)
qed

text \<open>Without an entry of the function table for the synthetic sequence, nothing is
  queued and nothing reaches the screen; a function that is not batchable is applied
  at once.\<close>

lemma execute_batching_unresolved:
  assumes "batching st" "functionDefinition E (synthetic c0 st) = None"
  shows "execute E c0 st =
     st\<lparr>sequence := synthetic c0 st, instructionCounter := instructionCounter st + 1,
        logged := logged st @ [UnknownVTSequence (synthetic c0 st)]\<rparr>"
  using assms by (simp add: execute_batching handleSequence_def Let_def)

lemma execute_batching_not_batchable:
  assumes "batching st" "functionDefinition E (synthetic c0 st) = Some f" "\<not> isBatchable E f"
  shows "execute E c0 st =
     st\<lparr>sequence := synthetic c0 st, instructionCounter := instructionCounter st + 1,
        screen := screen st @ calls_of E f (synthetic c0 st) @ [verifyState]\<rparr>"
proof -
  have "handleSequence E (st\<lparr>sequence := synthetic c0 st\<rparr>) =
     (st\<lparr>sequence := synthetic c0 st\<rparr>)
       \<lparr>instructionCounter := instructionCounter (st\<lparr>sequence := synthetic c0 st\<rparr>) + 1,
        screen := screen (st\<lparr>sequence := synthetic c0 st\<rparr>) @
          calls_of E f (sequence (st\<lparr>sequence := synthetic c0 st\<rparr>)) @ [verifyState]\<rparr>"
    using assms by (intro handleSequence_immediate) (simp_all add: synthetic_not_2026)
  then show ?thesis
    using assms(1) by (simp add: execute_batching)
qed

lemma calls_of_control:
  "calls_of E BEL s = [eventListener_bell]" "calls_of E BS s = [backspace]"
  "calls_of E TAB s = [moveCursorToNextTab]" "calls_of E LF s = [linefeed]"
  "calls_of E VT s = [index]" "calls_of E FF s = [index]"
  "calls_of E CR s = [moveCursorToBeginOfLine]" "calls_of E DECSC s = [saveCursor]"
  "calls_of E DECRS s = [restoreCursor]"
  by (simp_all add: calls_of_def apply_switch_def call_def)

lemma execute_not_batching:
  "screen (execute E (CHR 0x07) (st\<lparr>batching := False\<rparr>)) = screen st @ [eventListener_bell]"
  "screen (execute E (CHR 0x08) (st\<lparr>batching := False\<rparr>)) = screen st @ [backspace]"
  "screen (execute E (CHR 0x09) (st\<lparr>batching := False\<rparr>)) = screen st @ [moveCursorToNextTab]"
  "screen (execute E (CHR 0x0A) (st\<lparr>batching := False\<rparr>)) = screen st @ [linefeed]"
  "screen (execute E (CHR 0x0B) (st\<lparr>batching := False\<rparr>)) = screen st @ [index]"
  "screen (execute E (CHR 0x0C) (st\<lparr>batching := False\<rparr>)) = screen st @ [index]"
  "screen (execute E (CHR 0x0D) (st\<lparr>batching := False\<rparr>)) =
     screen st @ [moveCursorToBeginOfLine]"
  "screen (execute E (CHR 0x37) (st\<lparr>batching := False\<rparr>)) = screen st @ [saveCursor]"
  "screen (execute E (CHR 0x38) (st\<lparr>batching := False\<rparr>)) = screen st @ [restoreCursor]"
  by (simp_all add: execute_def executeControlFunction_def Let_def call_def)

lemma execute_direct:
  assumes "(c0, f) \<in> set controlFunctions"
  shows "screen (execute E c0 (st\<lparr>batching := False\<rparr>)) = screen st @ calls_of E f seq"
proof -
  from assms have
    "(c0 = CHR 0x07 \<and> f = BEL) \<or> (c0 = CHR 0x08 \<and> f = BS) \<or> (c0 = CHR 0x09 \<and> f = TAB) \<or>
     (c0 = CHR 0x0A \<and> f = LF) \<or> (c0 = CHR 0x0B \<and> f = VT) \<or> (c0 = CHR 0x0C \<and> f = FF) \<or>
     (c0 = CHR 0x0D \<and> f = CR) \<or> (c0 = CHR 0x37 \<and> f = DECSC) \<or>
     (c0 = CHR 0x38 \<and> f = DECRS)"
    by (simp add: controlFunctions_def)
  then show ?thesis
    by (elim disjE conjE) (simp_all only: calls_of_control execute_not_batching)
qed

text \<open>
  Let batching be active, and let the function table resolve the synthetic sequence of
  the byte \<open>c0\<close> (category C0, final char \<open>c0\<close>, nothing else) to a batchable function
  \<open>f\<close>. Then \<open>execute\<close> appends the synthetic sequence to the queue, and the screen
  receives \<open>verifyState\<close> and no other call. When the queue is flushed, the calls of
  \<open>f\<close> follow those of the entries queued before. For a byte and its function in
  \<open>controlFunctions\<close> these are the calls that \<open>execute\<close> makes at once outside
  batching.
\<close>

lemma execute_queued_and_flushed:
  assumes "batching st"
    and "functionDefinition E (synthetic c0 st) = Some f"
    and "isBatchable E f"
  shows "category (synthetic c0 st) = C0 \<and> finalChar (synthetic c0 st) = c0 \<and>
    batchedSequences (execute E c0 st) =
      batchedSequences st @ [BatchedSequence (synthetic c0 st)] \<and>
    screen (execute E c0 st) = screen st @ [verifyState] \<and>
    screen (flushBatchedSequences E ((execute E c0 st)\<lparr>batching := False\<rparr>)) =
      screen (execute E c0 st) @ concat (map (entry_calls E) (batchedSequences st)) @
      calls_of E f (synthetic c0 st) \<and>
    ((c0, f) \<in> set controlFunctions \<longrightarrow>
       screen (execute E c0 (st\<lparr>batching := False\<rparr>)) =
         screen st @ calls_of E f (synthetic c0 st))"
proof -
  note q = execute_batching_queued [OF assms]
  have nb: "\<not> batching ((execute E c0 st)\<lparr>batching := False\<rparr>)"
    by simp
  have "screen (flushBatchedSequences E ((execute E c0 st)\<lparr>batching := False\<rparr>)) =
      screen (execute E c0 st) @ concat (map (entry_calls E) (batchedSequences st)) @
      calls_of E f (synthetic c0 st)"
    using flushBatchedSequences_direct(4) [OF nb, of E] assms(2)
    by (simp add: q entry_calls_def)
  then show ?thesis
    using execute_direct [of c0 f E st "synthetic c0 st"]
    by (simp add: q synthetic_fields)
qed

lemma execute_linefeed_while_batching:
  "batching (Sequencer_init\<lparr>batching := True\<rparr>) \<and>
   functionDefinition SampleExternals (synthetic (CHR 0x0A) (Sequencer_init\<lparr>batching := True\<rparr>))
     = Some LF \<and>
   isBatchable SampleExternals LF \<and> (CHR 0x0A, LF) \<in> set controlFunctions \<and>
   batchedSequences (execute SampleExternals (CHR 0x0A) (Sequencer_init\<lparr>batching := True\<rparr>)) =
     [BatchedSequence (synthetic (CHR 0x0A) (Sequencer_init\<lparr>batching := True\<rparr>))] \<and>
   screen (execute SampleExternals (CHR 0x0A) (Sequencer_init\<lparr>batching := True\<rparr>)) =
     [verifyState] \<and>
   screen (flushBatchedSequences SampleExternals
       ((execute SampleExternals (CHR 0x0A) (Sequencer_init\<lparr>batching := True\<rparr>))
          \<lparr>batching := False\<rparr>)) = [verifyState, linefeed] \<and>
   screen (execute SampleExternals (CHR 0x0A) Sequencer_init) = [linefeed]"
proof -
  have r: "functionDefinition SampleExternals
      (synthetic (CHR 0x0A) (Sequencer_init\<lparr>batching := True\<rparr>)) = Some LF"
    by (simp add: SampleExternals_def sample_functionDefinition_def synthetic_fields)
  have b: "isBatchable SampleExternals LF"
    by (simp add: SampleExternals_def)
  have t: "(CHR 0x0A, LF) \<in> set controlFunctions"
    by (simp add: controlFunctions_def)
  have i: "batchedSequences Sequencer_init = []" "screen Sequencer_init = []"
    "Sequencer_init\<lparr>batching := False\<rparr> = Sequencer_init"
    by (simp_all add: Sequencer_init_def)
  have c: "calls_of SampleExternals LF s = [linefeed]" for s
    by (simp add: calls_of_def apply_switch_def call_def)
  show ?thesis
    using execute_queued_and_flushed [of "Sequencer_init\<lparr>batching := True\<rparr>" SampleExternals
        "CHR 0x0A" LF, OF _ r b] t
    by (simp add: r b i c)
qed

lemma no_saveCursor:
  assumes "parameters s = []" "f \<noteq> DECSC" "f \<noteq> SCOSC"
  shows "saveCursor \<notin> set (calls_of E f s)"
  using assms
  by (cases f)
    (simp_all add: calls_of_def apply_switch_def call_def parameterCount_def seq_param_def
      param_or_def impl_CPR_def impl_DECRQPSR_def impl_DECSCUSR_def cursorStyles_def
      impl_ED_def impl_EL_def impl_TBC_def dispatchSGR_def impl_WINDOWMANIP_def
      restoreDECModes_def saveDECModes_def impl_XTSMGRAPHICS_def impl_HYPERLINK_def
      setOrRequestDynamicColor_def clipboard_def impl_NOTIFY_def requestMode_def
      requestModeDEC_def Let_def split: option.split)

lemma no_restoreCursor:
  assumes "parameters s = []" "f \<noteq> DECRS" "f \<noteq> ANSISYSSC"
  shows "restoreCursor \<notin> set (calls_of E f s)"
  using assms
  by (cases f)
    (simp_all add: calls_of_def apply_switch_def call_def parameterCount_def seq_param_def
      param_or_def impl_CPR_def impl_DECRQPSR_def impl_DECSCUSR_def cursorStyles_def
      impl_ED_def impl_EL_def impl_TBC_def dispatchSGR_def impl_WINDOWMANIP_def
      restoreDECModes_def saveDECModes_def impl_XTSMGRAPHICS_def impl_HYPERLINK_def
      setOrRequestDynamicColor_def clipboard_def impl_NOTIFY_def requestMode_def
      requestModeDEC_def Let_def split: option.split)

lemma execute_batching_cases:
  assumes "batching st"
  obtains
    (unresolved) "functionDefinition E (synthetic c0 st) = None"
      "screen (execute E c0 st) = screen st"
      "batchedSequences (execute E c0 st) = batchedSequences st"
  | (queued) f where "functionDefinition E (synthetic c0 st) = Some f"
      "screen (execute E c0 st) = screen st @ [verifyState]"
      "batchedSequences (execute E c0 st) =
         batchedSequences st @ [BatchedSequence (synthetic c0 st)]"
  | (applied) f where "functionDefinition E (synthetic c0 st) = Some f"
      "screen (execute E c0 st) = screen st @ calls_of E f (synthetic c0 st) @ [verifyState]"
      "batchedSequences (execute E c0 st) = batchedSequences st"
proof (cases "functionDefinition E (synthetic c0 st)")
  case None
  with assms show ?thesis
    using execute_batching_unresolved [of st E c0] by (intro unresolved) simp_all
next
  case (Some f)
  show ?thesis
  proof (cases "isBatchable E f")
    case True
    with Some assms show ?thesis
      using execute_batching_queued [of st E c0 f] by (intro queued [of f]) simp_all
  next
    case False
    with Some assms show ?thesis
      using execute_batching_not_batchable [of st E c0 f] by (intro applied [of f]) simp_all
  qed
qed

lemma entry_calls_synthetic:
  "entry_calls E (BatchedSequence (synthetic c0 st)) =
     (case functionDefinition E (synthetic c0 st) of
        Some f \<Rightarrow> calls_of E f (synthetic c0 st) | None \<Rightarrow> [])"
  by (simp add: entry_calls_def)

text \<open>
  C7 fails on the code for the bytes 0x37 and 0x38. Outside batching \<open>execute\<close> saves
  the cursor for 0x37 and restores it for 0x38. While batching it builds the sequence of
  category C0 with the byte as final char and hands it to \<open>handleSequence\<close>; the
  switch of \<open>apply\<close> has no C0 case for the two bytes, and only the functions DECSC and
  SCOSC (DECRS and ANSISYSSC) of its ESC and CSI cases save (restore) the cursor. So
  unless the function table resolves the C0 sequence to one of these, the screen never
  receives the call: not when \<open>execute\<close> runs, and not when the queue is flushed,
  whether the sequence was queued or not.
\<close>

theorem execute_save_restore_while_batching:
  "(batching st \<and> functionDefinition E (synthetic (CHR 0x37) st) \<noteq> Some DECSC \<and>
    functionDefinition E (synthetic (CHR 0x37) st) \<noteq> Some SCOSC \<longrightarrow>
      (\<exists>cs. screen (execute E (CHR 0x37) st) = screen st @ cs \<and> saveCursor \<notin> set cs) \<and>
      (batchedSequences (execute E (CHR 0x37) st) = batchedSequences st \<or>
       batchedSequences (execute E (CHR 0x37) st) =
         batchedSequences st @ [BatchedSequence (synthetic (CHR 0x37) st)]) \<and>
      saveCursor \<notin> set (entry_calls E (BatchedSequence (synthetic (CHR 0x37) st)))) \<and>
   (batching st \<and> functionDefinition E (synthetic (CHR 0x38) st) \<noteq> Some DECRS \<and>
    functionDefinition E (synthetic (CHR 0x38) st) \<noteq> Some ANSISYSSC \<longrightarrow>
      (\<exists>cs. screen (execute E (CHR 0x38) st) = screen st @ cs \<and> restoreCursor \<notin> set cs) \<and>
      (batchedSequences (execute E (CHR 0x38) st) = batchedSequences st \<or>
       batchedSequences (execute E (CHR 0x38) st) =
         batchedSequences st @ [BatchedSequence (synthetic (CHR 0x38) st)]) \<and>
      restoreCursor \<notin> set (entry_calls E (BatchedSequence (synthetic (CHR 0x38) st)))) \<and>
   screen (execute E (CHR 0x37) (st\<lparr>batching := False\<rparr>)) = screen st @ [saveCursor] \<and>
   screen (execute E (CHR 0x38) (st\<lparr>batching := False\<rparr>)) = screen st @ [restoreCursor]"
proof (intro conjI impI)
  assume a: "batching st \<and> functionDefinition E (synthetic (CHR 0x37) st) \<noteq> Some DECSC \<and>
    functionDefinition E (synthetic (CHR 0x37) st) \<noteq> Some SCOSC"
  then have b: "batching st" by simp
  have n: "saveCursor \<notin> set (calls_of E f (synthetic (CHR 0x37) st))"
    if "functionDefinition E (synthetic (CHR 0x37) st) = Some f" for f
    using that a by (intro no_saveCursor) (auto simp: synthetic_fields)
  show "saveCursor \<notin> set (entry_calls E (BatchedSequence (synthetic (CHR 0x37) st)))"
    using n by (simp add: entry_calls_synthetic split: option.split)
  from b show "\<exists>cs. screen (execute E (CHR 0x37) st) = screen st @ cs \<and> saveCursor \<notin> set cs"
    by (cases rule: execute_batching_cases [of st E "CHR 0x37"]) (use n in auto)
  from b show "batchedSequences (execute E (CHR 0x37) st) = batchedSequences st \<or>
       batchedSequences (execute E (CHR 0x37) st) =
         batchedSequences st @ [BatchedSequence (synthetic (CHR 0x37) st)]"
    by (cases rule: execute_batching_cases [of st E "CHR 0x37"]) auto
next
  assume a: "batching st \<and> functionDefinition E (synthetic (CHR 0x38) st) \<noteq> Some DECRS \<and>
    functionDefinition E (synthetic (CHR 0x38) st) \<noteq> Some ANSISYSSC"
  then have b: "batching st" by simp
  have n: "restoreCursor \<notin> set (calls_of E f (synthetic (CHR 0x38) st))"
    if "functionDefinition E (synthetic (CHR 0x38) st) = Some f" for f
    using that a by (intro no_restoreCursor) (auto simp: synthetic_fields)
  show "restoreCursor \<notin> set (entry_calls E (BatchedSequence (synthetic (CHR 0x38) st)))"
    using n by (simp add: entry_calls_synthetic split: option.split)
  from b show "\<exists>cs. screen (execute E (CHR 0x38) st) = screen st @ cs \<and> restoreCursor \<notin> set cs"
    by (cases rule: execute_batching_cases [of st E "CHR 0x38"]) (use n in auto)
  from b show "batchedSequences (execute E (CHR 0x38) st) = batchedSequences st \<or>
       batchedSequences (execute E (CHR 0x38) st) =
         batchedSequences st @ [BatchedSequence (synthetic (CHR 0x38) st)]"
    by (cases rule: execute_batching_cases [of st E "CHR 0x38"]) auto
next
  show "screen (execute E (CHR 0x37) (st\<lparr>batching := False\<rparr>)) = screen st @ [saveCursor]"
    by (rule execute_not_batching)
  show "screen (execute E (CHR 0x38) (st\<lparr>batching := False\<rparr>)) = screen st @ [restoreCursor]"
    by (rule execute_not_batching)
qed

theorem execute_save_restore_while_batching_witness:
  "batching (Sequencer_init\<lparr>batching := True\<rparr>) \<and>
   functionDefinition SampleExternals (synthetic (CHR 0x37) (Sequencer_init\<lparr>batching := True\<rparr>))
     = None \<and>
   screen (execute SampleExternals (CHR 0x37) (Sequencer_init\<lparr>batching := True\<rparr>)) = [] \<and>
   batchedSequences (execute SampleExternals (CHR 0x37) (Sequencer_init\<lparr>batching := True\<rparr>))
     = [] \<and>
   screen (execute SampleExternals (CHR 0x37) Sequencer_init) = [saveCursor] \<and>
   saveCursor \<notin> set (entry_calls SampleExternals
      (BatchedSequence (synthetic (CHR 0x37) (Sequencer_init\<lparr>batching := True\<rparr>))))"
proof -
  define st where "st = Sequencer_init\<lparr>batching := True\<rparr>"
  have r: "functionDefinition SampleExternals (synthetic (CHR 0x37) st) = None"
    by (simp add: SampleExternals_def sample_functionDefinition_def synthetic_fields)
  have b: "batching st"
    by (simp add: st_def)
  have i: "st\<lparr>batching := False\<rparr> = Sequencer_init" "screen st = []" "batchedSequences st = []"
    by (simp_all add: st_def Sequencer_init_def)
  have e: "screen (execute SampleExternals (CHR 0x37) st) = []"
    "batchedSequences (execute SampleExternals (CHR 0x37) st) = []"
    using execute_batching_unresolved [OF b r] by (simp_all add: i)
  from execute_save_restore_while_batching [of st SampleExternals] b r
  have "saveCursor \<notin> set (entry_calls SampleExternals (BatchedSequence (synthetic (CHR 0x37) st)))"
    and "screen (execute SampleExternals (CHR 0x37) Sequencer_init) = [saveCursor]"
    by (simp_all add: i)
  then show ?thesis
    using b r e unfolding st_def by simp
qed

section \<open>Dynamic colours\<close>

lemma rgb_literal_shape:
  "(length v = 18 \<and> take 4 v = ''rgb:'' \<and> v ! 8 = CHR ''/'' \<and> v ! 13 = CHR ''/'') \<longleftrightarrow>
   (\<exists>R G B. length R = 4 \<and> length G = 4 \<and> length B = 4 \<and>
      v = ''rgb:'' @ R @ ''/'' @ G @ ''/'' @ B)"
  (is "?code \<longleftrightarrow> ?form")
proof
  assume c: ?code
  have d8: "drop 8 v = CHR ''/'' # drop 9 v"
    using c Cons_nth_drop_Suc [of 8 v] by simp
  have d13: "drop 13 v = CHR ''/'' # drop 14 v"
    using c Cons_nth_drop_Suc [of 13 v] by simp
  have "v = take 4 v @ drop 4 v" by simp
  also have "drop 4 v = take 4 (drop 4 v) @ drop 4 (drop 4 v)"
    by (simp only: append_take_drop_id)
  also have "drop 4 (drop 4 v) = CHR ''/'' # drop 9 v" using d8 by simp
  also have "drop 9 v = take 4 (drop 9 v) @ drop 4 (drop 9 v)"
    by (simp only: append_take_drop_id)
  also have "drop 4 (drop 9 v) = CHR ''/'' # drop 14 v" using d13 by simp
  finally have "v = ''rgb:'' @ take 4 (drop 4 v) @ ''/'' @ take 4 (drop 9 v) @ ''/'' @ drop 14 v"
    using c by simp
  moreover have "length (take 4 (drop 4 v)) = 4" "length (take 4 (drop 9 v)) = 4"
    "length (drop 14 v) = 4"
    using c by simp_all
  ultimately show ?form by blast
next
  assume ?form
  then obtain R G B where l: "length R = 4" "length G = 4" "length B = 4"
    and v: "v = ''rgb:'' @ R @ ''/'' @ G @ ''/'' @ B"
    by blast
  have "v ! 8 = CHR ''/''"
    using l by (simp add: v nth_append nth_Cons')
  moreover have "v ! 13 = CHR ''/''"
    using l by (simp add: v nth_append nth_Cons')
  ultimately show ?code
    using l by (simp add: v)
qed

lemma Sequencer_parseColor_literal:
  assumes "length R = 4" "length G = 4" "length B = 4"
  shows "Sequencer_parseColor E (''rgb:'' @ R @ ''/'' @ G @ ''/'' @ B) =
     (case strntoul E (R @ ''/'' @ G @ ''/'' @ B) 4 16 of
        None \<Rightarrow> None
      | Some r \<Rightarrow>
          (case strntoul E (G @ ''/'' @ B) 4 16 of
             None \<Rightarrow> None
           | Some g \<Rightarrow>
               (case strntoul E B 4 16 of
                  None \<Rightarrow> None
                | Some b \<Rightarrow>
                    Some (RGBColor (ucast (r AND 0xFF)) (ucast (g AND 0xFF))
                                   (ucast (b AND 0xFF))))))"
proof -
  define v where "v = ''rgb:'' @ R @ ''/'' @ G @ ''/'' @ B"
  have shape: "length v = 18 \<and> take 4 v = ''rgb:'' \<and> v ! 8 = CHR ''/'' \<and> v ! 13 = CHR ''/''"
    using assms rgb_literal_shape [of v] v_def by blast
  have d: "drop 4 v = R @ ''/'' @ G @ ''/'' @ B" "drop 9 v = G @ ''/'' @ B" "drop 14 v = B"
    using assms by (simp_all add: v_def)
  show ?thesis
    unfolding v_def [symmetric] Sequencer_parseColor_def d using shape by simp
qed

lemma Sequencer_parseColor_other:
  assumes "\<not> (\<exists>R G B. length R = 4 \<and> length G = 4 \<and> length B = 4 \<and>
      v = ''rgb:'' @ R @ ''/'' @ G @ ''/'' @ B)"
  shows "Sequencer_parseColor E v = None"
proof -
  have "\<not> (length v = 18 \<and> take 4 v = ''rgb:'' \<and> v ! 8 = CHR ''/'' \<and> v ! 13 = CHR ''/'')"
    using assms rgb_literal_shape [of v] by blast
  then show ?thesis
    unfolding Sequencer_parseColor_def by (rule if_not_P)
qed

lemma apply_switch_dynamicColor:
  "(f, name) \<in> set dynamicColors \<Longrightarrow>
   apply_switch E f seq scr = setOrRequestDynamicColor E seq scr name"
  by (auto simp: dynamicColors_def apply_switch_def)

lemma Sequencer_apply_dynamicColor:
  assumes "(f, name) \<in> set dynamicColors" "\<not> (batching st \<and> isBatchable E f)"
  shows "Sequencer_apply E f seq st =
     (fst (setOrRequestDynamicColor E seq (screen st) name),
      st\<lparr>screen := snd (setOrRequestDynamicColor E seq (screen st) name)\<rparr>)"
  using assms by (auto simp: Sequencer_apply_def apply_switch_dynamicColor)

text \<open>
  C8. Let \<open>f\<close> be one of the dynamic-colour functions, with the colour name it stands
  for, applied outside batching (or not batchable). If the payload is \<^verbatim>\<open>?\<close>, the screen
  receives the request for the named colour. If the payload is \<^verbatim>\<open>rgb:\<close> and three
  groups of four bytes with \<^verbatim>\<open>/\<close> between them, and \<^verbatim>\<open>strntoul\<close> (a parameter) converts
  the groups to \<open>r\<close>, \<open>g\<close>, \<open>b\<close>, the screen receives the named colour set to the low
  bytes of \<open>r\<close>, \<open>g\<close>, \<open>b\<close>. For a payload of this form on which a conversion throws,
  and for every other payload, the result is \<open>Invalid\<close> and nothing changes.
\<close>

theorem dynamic_color_payload:
  assumes "(f, name) \<in> set dynamicColors" and "\<not> (batching st \<and> isBatchable E f)"
  shows "(intermediateCharacters seq = ''?'' \<longrightarrow>
       Sequencer_apply E f seq st =
         (Ok, st\<lparr>screen := screen st @ [requestDynamicColor name]\<rparr>)) \<and>
    (\<forall>R G B. length R = 4 \<and> length G = 4 \<and> length B = 4 \<and>
       intermediateCharacters seq = ''rgb:'' @ R @ ''/'' @ G @ ''/'' @ B \<longrightarrow>
       (\<forall>r g b. strntoul E (R @ ''/'' @ G @ ''/'' @ B) 4 16 = Some r \<and>
          strntoul E (G @ ''/'' @ B) 4 16 = Some g \<and> strntoul E B 4 16 = Some b \<longrightarrow>
          Sequencer_apply E f seq st =
            (Ok, st\<lparr>screen := screen st @
               [setDynamicColor name
                  (RGBColor (ucast (r AND 0xFF)) (ucast (g AND 0xFF)) (ucast (b AND 0xFF)))]\<rparr>)) \<and>
       (strntoul E (R @ ''/'' @ G @ ''/'' @ B) 4 16 = None \<or>
        strntoul E (G @ ''/'' @ B) 4 16 = None \<or> strntoul E B 4 16 = None \<longrightarrow>
          Sequencer_apply E f seq st = (Invalid, st))) \<and>
    (intermediateCharacters seq \<noteq> ''?'' \<and>
     \<not> (\<exists>R G B. length R = 4 \<and> length G = 4 \<and> length B = 4 \<and>
          intermediateCharacters seq = ''rgb:'' @ R @ ''/'' @ G @ ''/'' @ B) \<longrightarrow>
       Sequencer_apply E f seq st = (Invalid, st))"
proof (intro conjI allI impI)
  note a = Sequencer_apply_dynamicColor [OF assms, of seq]
  {
    assume "intermediateCharacters seq = ''?''"
    then show "Sequencer_apply E f seq st =
        (Ok, st\<lparr>screen := screen st @ [requestDynamicColor name]\<rparr>)"
      by (simp add: a setOrRequestDynamicColor_def call_def)
  }
  {
    fix R G B
    assume l: "length R = 4 \<and> length G = 4 \<and> length B = 4 \<and>
       intermediateCharacters seq = ''rgb:'' @ R @ ''/'' @ G @ ''/'' @ B"
    then have q: "intermediateCharacters seq \<noteq> ''?''"
      by auto
    from l have p: "Sequencer_parseColor E (intermediateCharacters seq) =
     (case strntoul E (R @ ''/'' @ G @ ''/'' @ B) 4 16 of
        None \<Rightarrow> None
      | Some r \<Rightarrow>
          (case strntoul E (G @ ''/'' @ B) 4 16 of
             None \<Rightarrow> None
           | Some g \<Rightarrow>
               (case strntoul E B 4 16 of
                  None \<Rightarrow> None
                | Some b \<Rightarrow>
                    Some (RGBColor (ucast (r AND 0xFF)) (ucast (g AND 0xFF))
                                   (ucast (b AND 0xFF))))))"
      using Sequencer_parseColor_literal [of R G B E] by simp
    {
      fix r g b
      assume "strntoul E (R @ ''/'' @ G @ ''/'' @ B) 4 16 = Some r \<and>
          strntoul E (G @ ''/'' @ B) 4 16 = Some g \<and> strntoul E B 4 16 = Some b"
      then show "Sequencer_apply E f seq st =
            (Ok, st\<lparr>screen := screen st @
               [setDynamicColor name
                  (RGBColor (ucast (r AND 0xFF)) (ucast (g AND 0xFF)) (ucast (b AND 0xFF)))]\<rparr>)"
        using q by (simp add: a setOrRequestDynamicColor_def call_def p)
    }
    {
      assume "strntoul E (R @ ''/'' @ G @ ''/'' @ B) 4 16 = None \<or>
        strntoul E (G @ ''/'' @ B) 4 16 = None \<or> strntoul E B 4 16 = None"
      then have "Sequencer_parseColor E (intermediateCharacters seq) = None"
        by (auto simp: p split: option.split)
      then show "Sequencer_apply E f seq st = (Invalid, st)"
        using q by (simp add: a setOrRequestDynamicColor_def)
    }
  }
  {
    assume o: "intermediateCharacters seq \<noteq> ''?'' \<and>
     \<not> (\<exists>R G B. length R = 4 \<and> length G = 4 \<and> length B = 4 \<and>
          intermediateCharacters seq = ''rgb:'' @ R @ ''/'' @ G @ ''/'' @ B)"
    then have "Sequencer_parseColor E (intermediateCharacters seq) = None"
      using Sequencer_parseColor_other [of "intermediateCharacters seq" E] by blast
    then show "Sequencer_apply E f seq st = (Invalid, st)"
      using o by (simp add: a setOrRequestDynamicColor_def)
  }
qed

lemma sample_strntoul_values:
  "strntoul SampleExternals ''1234/5678/9abc'' 4 16 = Some 0x1234"
  "strntoul SampleExternals ''5678/9abc'' 4 16 = Some 0x5678"
  "strntoul SampleExternals ''9abc'' 4 16 = Some 0x9abc"
  "strntoul SampleExternals ''12zz/5678/9abc'' 4 16 = None"
  by (simp_all add: SampleExternals_def sample_strntoul_def hex_digit_def)

theorem dynamic_color_payload_witness:
  "(COLORFG, DefaultForegroundColor) \<in> set dynamicColors \<and>
   \<not> (batching Sequencer_init \<and> isBatchable SampleExternals COLORFG) \<and>
   Sequencer_apply SampleExternals COLORFG (osc 10 ''?'') Sequencer_init =
     (Ok, Sequencer_init\<lparr>screen := [requestDynamicColor DefaultForegroundColor]\<rparr>) \<and>
   Sequencer_apply SampleExternals COLORFG (osc 10 ''rgb:1234/5678/9abc'') Sequencer_init =
     (Ok, Sequencer_init\<lparr>screen :=
        [setDynamicColor DefaultForegroundColor (RGBColor 0x34 0x78 0xbc)]\<rparr>) \<and>
   Sequencer_apply SampleExternals COLORFG (osc 10 ''rgb:12zz/5678/9abc'') Sequencer_init =
     (Invalid, Sequencer_init) \<and>
   Sequencer_apply SampleExternals COLORFG (osc 10 ''rgb:12/34/56'') Sequencer_init =
     (Invalid, Sequencer_init)"
proof -
  have m: "(COLORFG, DefaultForegroundColor) \<in> set dynamicColors"
    by (simp add: dynamicColors_def)
  have nb: "\<not> (batching Sequencer_init \<and> isBatchable SampleExternals COLORFG)"
    by (simp add: Sequencer_init_def)
  have i: "screen Sequencer_init = []"
    by (simp add: Sequencer_init_def)
  note t = dynamic_color_payload [OF m nb]
  have 1: "Sequencer_apply SampleExternals COLORFG (osc 10 ''?'') Sequencer_init =
     (Ok, Sequencer_init\<lparr>screen := [requestDynamicColor DefaultForegroundColor]\<rparr>)"
    using t [of "osc 10 ''?''"] by (simp add: osc_def i)
  note t2 = t [of "osc 10 ''rgb:1234/5678/9abc''", THEN conjunct2, THEN conjunct1, rule_format,
      of "''1234''" "''5678''" "''9abc''"]
  have 2: "Sequencer_apply SampleExternals COLORFG (osc 10 ''rgb:1234/5678/9abc'') Sequencer_init =
     (Ok, Sequencer_init\<lparr>screen :=
        [setDynamicColor DefaultForegroundColor (RGBColor 0x34 0x78 0xbc)]\<rparr>)"
    using t2 [THEN conjunct1, rule_format, of "0x1234" "0x5678" "0x9abc"]
    by (simp add: osc_def i sample_strntoul_values)
  note t3 = t [of "osc 10 ''rgb:12zz/5678/9abc''", THEN conjunct2, THEN conjunct1, rule_format,
      of "''12zz''" "''5678''" "''9abc''"]
  have 3: "Sequencer_apply SampleExternals COLORFG (osc 10 ''rgb:12zz/5678/9abc'') Sequencer_init =
     (Invalid, Sequencer_init)"
    using t3 [THEN conjunct2] by (simp add: osc_def sample_strntoul_values)
  have "\<not> (\<exists>R G B. length R = 4 \<and> length G = 4 \<and> length B = 4 \<and>
          ''rgb:12/34/56'' = ''rgb:'' @ R @ ''/'' @ G @ ''/'' @ B)"
  proof
    assume "\<exists>R G B. length R = 4 \<and> length G = 4 \<and> length B = 4 \<and>
          ''rgb:12/34/56'' = ''rgb:'' @ R @ ''/'' @ G @ ''/'' @ B"
    then obtain R G B where "length R = 4" "length G = 4" "length B = 4"
      "''rgb:12/34/56'' = ''rgb:'' @ R @ ''/'' @ G @ ''/'' @ B"
      by blast
    then have "length ''rgb:12/34/56'' = length (''rgb:'' @ R @ ''/'' @ G @ ''/'' @ B)"
      by simp
    then show False
      using \<open>length R = 4\<close> \<open>length G = 4\<close> \<open>length B = 4\<close> by simp
  qed
  then have 4: "Sequencer_apply SampleExternals COLORFG (osc 10 ''rgb:12/34/56'') Sequencer_init =
     (Invalid, Sequencer_init)"
    using t [of "osc 10 ''rgb:12/34/56''", THEN conjunct2, THEN conjunct2]
    by (simp add: osc_def)
  show ?thesis
    using m nb 1 2 3 4 by simp
qed

section \<open>SGR colours out of range\<close>

lemma dispatchSGR_Ok: "fst (dispatchSGR seq scr) = Ok"
  by (simp add: dispatchSGR_def)

lemma parseColor_rgb_subparameters:
  assumes "i + 1 = parameterCount seq" "subParameterCount seq i = 4" "subparam seq i 0 = 2"
    and "255 < subparam seq i 1 \<or> 255 < subparam seq i 2 \<or> 255 < subparam seq i 3"
  shows "parseColor seq i = (UndefinedColor, i + 1)"
  using assms by (auto simp: parseColor_def Let_def)

lemma parseColor_indexed_subparameters:
  assumes "i + 1 = parameterCount seq" "1 \<le> subParameterCount seq i" "subparam seq i 0 = 5"
    and "255 < subparam seq i 1"
  shows "parseColor seq i = (UndefinedColor, i + 1)"
  using assms by (auto simp: parseColor_def Let_def)

lemma parseColor_rgb_legacy:
  assumes "subParameterCount seq i = 0" "seq_param seq (i + 1) = 2" "i + 4 < parameterCount seq"
    and "255 < seq_param seq (i + 2) \<or> 255 < seq_param seq (i + 3) \<or> 255 < seq_param seq (i + 4)"
  shows "parseColor seq i = (UndefinedColor, i + 5)"
  using assms by (auto simp: parseColor_def Let_def)

lemma dispatchSGR_loop_color:
  assumes "i < parameterCount seq"
    and "seq_param seq i = 38 \<or> seq_param seq i = 48 \<or> seq_param seq i = 58"
  shows "dispatchSGR_loop seq i scr =
     dispatchSGR_loop seq (Suc (snd (parseColor seq i)))
       (scr @ [colorCall (seq_param seq i) (fst (parseColor seq i))])"
  using assms
  by (subst dispatchSGR_loop.simps)
    (auto simp: dispatchSGR_body_def Let_def call_def colorCall_def split: prod.split)

text \<open>
  C4, as the code has it. Let the SGR code at index \<open>i\<close> be 38, 48 or 58, and let its
  colour argument have a value above 255 in one of these forms: the sub-parameter
  form \<^verbatim>\<open>:2:r:g:b\<close> or \<^verbatim>\<open>:5:n\<close> in the last group, or the legacy form \<^verbatim>\<open>;2;r;g;b\<close>. Then
  \<open>parseColor\<close> discards the colour: it returns the default-constructed \<^verbatim>\<open>Color{}\<close> and a
  later index. The screen is still called: \<open>dispatchSGR\<close> hands the undefined colour to
  \<open>setForegroundColor\<close>, \<open>setBackgroundColor\<close> or \<open>setUnderlineColor\<close> and goes on with the
  loop, and \<open>apply\<close> returns \<open>Ok\<close>, as it does for every SGR sequence.
\<close>

theorem sgr_color_out_of_range:
  assumes "i < parameterCount seq"
    and "seq_param seq i = 38 \<or> seq_param seq i = 48 \<or> seq_param seq i = 58"
    and "(i + 1 = parameterCount seq \<and> subParameterCount seq i = 4 \<and> subparam seq i 0 = 2 \<and>
           (255 < subparam seq i 1 \<or> 255 < subparam seq i 2 \<or> 255 < subparam seq i 3)) \<or>
         (i + 1 = parameterCount seq \<and> 1 \<le> subParameterCount seq i \<and> subparam seq i 0 = 5 \<and>
           255 < subparam seq i 1) \<or>
         (subParameterCount seq i = 0 \<and> seq_param seq (i + 1) = 2 \<and> i + 4 < parameterCount seq \<and>
           (255 < seq_param seq (i + 2) \<or> 255 < seq_param seq (i + 3) \<or>
            255 < seq_param seq (i + 4)))"
  shows "fst (parseColor seq i) = UndefinedColor \<and> i < snd (parseColor seq i) \<and>
    dispatchSGR_loop seq i scr =
      dispatchSGR_loop seq (Suc (snd (parseColor seq i)))
        (scr @ [colorCall (seq_param seq i) UndefinedColor]) \<and>
    fst (apply_switch E SGR seq scr) = Ok \<and>
    fst (Sequencer_apply E SGR seq (st\<lparr>batching := False\<rparr>)) = Ok"
proof -
  from assms(3) have u: "fst (parseColor seq i) = UndefinedColor"
    using parseColor_rgb_subparameters [of i seq] parseColor_indexed_subparameters [of i seq]
      parseColor_rgb_legacy [of seq i]
    by (elim disjE conjE) simp_all
  have "dispatchSGR_loop seq i scr =
      dispatchSGR_loop seq (Suc (snd (parseColor seq i)))
        (scr @ [colorCall (seq_param seq i) UndefinedColor])"
    using dispatchSGR_loop_color [OF assms(1,2), of scr] by (simp add: u)
  moreover have "fst (apply_switch E SGR seq s) = Ok" for s
    by (simp add: apply_switch_def dispatchSGR_Ok)
  ultimately show ?thesis
    using u parseColor_advances [of i seq] by (simp add: Sequencer_apply_def)
qed

lemma sample_sgr_calls:
  "apply_switch E SGR (csi (CHR 0x00) [[38, 2, 300, 0, 0]] (CHR ''m'')) [] =
     (Ok, [setForegroundColor UndefinedColor])"
  "apply_switch E SGR (csi (CHR 0x00) [[48, 5, 256]] (CHR ''m'')) [] =
     (Ok, [setBackgroundColor UndefinedColor])"
  "apply_switch E SGR (csi (CHR 0x00) [[58], [2], [0], [256], [0]] (CHR ''m'')) [] =
     (Ok, [setUnderlineColor UndefinedColor])"
  "apply_switch E SGR (csi (CHR 0x00) [[38], [5], [300]] (CHR ''m'')) [] =
     (Ok, [setForegroundColor (IndexedColor 44)])"
  by (simp_all add: apply_switch_def dispatchSGR_def dispatchSGR_loop.simps dispatchSGR_body_def
      parseColor_def call_def csi_def parameterCount_def seq_param_def subParameterCount_def
      subparam_def)

theorem sgr_color_out_of_range_witness:
  "fst (parseColor (csi (CHR 0x00) [[38, 2, 300, 0, 0]] (CHR ''m'')) 0) = UndefinedColor \<and>
   dispatchSGR_loop (csi (CHR 0x00) [[38, 2, 300, 0, 0]] (CHR ''m'')) 0 [] =
     [setForegroundColor UndefinedColor] \<and>
   fst (apply_switch SampleExternals SGR (csi (CHR 0x00) [[38, 2, 300, 0, 0]] (CHR ''m'')) []) = Ok \<and>
   fst (parseColor (csi (CHR 0x00) [[1], [58], [2], [0], [256], [0]] (CHR ''m'')) 1) =
     UndefinedColor"
proof -
  define s where "s = csi (CHR 0x00) [[38, 2, 300, 0, 0]] (CHR ''m'')"
  define t where "t = csi (CHR 0x00) [[1], [58], [2], [0], [256], [0]] (CHR ''m'')"
  have s1: "0 < parameterCount s" and s2: "seq_param s 0 = 38 \<or> seq_param s 0 = 48 \<or> seq_param s 0 = 58"
    by (simp_all add: s_def csi_def parameterCount_def seq_param_def)
  have s3: "(0 + 1 = parameterCount s \<and> subParameterCount s 0 = 4 \<and> subparam s 0 0 = 2 \<and>
           (255 < subparam s 0 1 \<or> 255 < subparam s 0 2 \<or> 255 < subparam s 0 3)) \<or>
         (0 + 1 = parameterCount s \<and> 1 \<le> subParameterCount s 0 \<and> subparam s 0 0 = 5 \<and>
           255 < subparam s 0 1) \<or>
         (subParameterCount s 0 = 0 \<and> seq_param s (0 + 1) = 2 \<and> 0 + 4 < parameterCount s \<and>
           (255 < seq_param s (0 + 2) \<or> 255 < seq_param s (0 + 3) \<or>
            255 < seq_param s (0 + 4)))"
    by (simp add: s_def csi_def parameterCount_def seq_param_def subParameterCount_def
        subparam_def)
  have t1: "1 < parameterCount t" and t2: "seq_param t 1 = 38 \<or> seq_param t 1 = 48 \<or> seq_param t 1 = 58"
    by (simp_all add: t_def csi_def parameterCount_def seq_param_def)
  have t3: "(1 + 1 = parameterCount t \<and> subParameterCount t 1 = 4 \<and> subparam t 1 0 = 2 \<and>
           (255 < subparam t 1 1 \<or> 255 < subparam t 1 2 \<or> 255 < subparam t 1 3)) \<or>
         (1 + 1 = parameterCount t \<and> 1 \<le> subParameterCount t 1 \<and> subparam t 1 0 = 5 \<and>
           255 < subparam t 1 1) \<or>
         (subParameterCount t 1 = 0 \<and> seq_param t (1 + 1) = 2 \<and> 1 + 4 < parameterCount t \<and>
           (255 < seq_param t (1 + 2) \<or> 255 < seq_param t (1 + 3) \<or>
            255 < seq_param t (1 + 4)))"
    by (simp add: t_def csi_def parameterCount_def seq_param_def subParameterCount_def
        subparam_def)
  have p: "snd (parseColor s 0) = 1" "seq_param s 0 = 38"
    by (simp_all add: parseColor_def s_def csi_def parameterCount_def seq_param_def
        subParameterCount_def subparam_def)
  have e: "dispatchSGR_loop s (Suc (Suc 0)) scr = scr" for scr
    by (subst dispatchSGR_loop.simps) (simp add: s_def csi_def parameterCount_def)
  from sgr_color_out_of_range [OF s1 s2 s3, of "[]" SampleExternals Sequencer_init]
  have "fst (parseColor s 0) = UndefinedColor \<and>
    dispatchSGR_loop s 0 [] = [setForegroundColor UndefinedColor] \<and>
    fst (apply_switch SampleExternals SGR s []) = Ok"
    by (simp add: p e colorCall_def)
  moreover from sgr_color_out_of_range [OF t1 t2 t3, of "[]" SampleExternals Sequencer_init]
  have "fst (parseColor t 1) = UndefinedColor"
    by simp
  ultimately show ?thesis
    by (simp add: s_def t_def)
qed

text \<open>
  C4, as the claim states it, fails. For CSI \<^verbatim>\<open>38:2:300:0:0 m\<close> the result of \<open>apply\<close>
  is \<open>Ok\<close>, not \<open>Invalid\<close>, and the screen receives \<open>setForegroundColor\<close> with the
  undefined colour. For the legacy form CSI \<^verbatim>\<open>38;5;300 m\<close> the colour is not even
  discarded, since the code compares the index \<open>i\<close> and not the value with 255: the
  screen receives the palette index 300 cut to 8 bits.
\<close>

theorem sgr_color_counterexample:
  "Sequencer_apply SampleExternals SGR (csi (CHR 0x00) [[38, 2, 300, 0, 0]] (CHR ''m''))
      Sequencer_init =
     (Ok, Sequencer_init\<lparr>screen := [setForegroundColor UndefinedColor]\<rparr>) \<and>
   Sequencer_apply SampleExternals SGR (csi (CHR 0x00) [[38], [5], [300]] (CHR ''m''))
      Sequencer_init =
     (Ok, Sequencer_init\<lparr>screen := [setForegroundColor (IndexedColor 44)]\<rparr>)"
  by (simp add: Sequencer_apply_def sample_sgr_calls Sequencer_init_def)

section \<open>The message parser\<close>





















lemmas parser_eval =
  parse_def parseFragment_def finalize_def pass_def flushHeader_def decoded_def start_def Let_def
  MaxKeyLength_def MaxValueLength_def MaxParamCount_def MaxBodyLength_def header_def

lemma base64_samples:
  "sample_base64 ''YWJj'' = Some ''abc''"
  "sample_base64 ''GwAH'' = Some [CHR 0x1B, CHR 0x00, CHR 0x07]"
  "sample_base64 ''Y;Jj'' = None"
  by (simp_all add: sample_base64_def base64_index_def Let_def char_of_def bit_Suc_0_iff)

text \<open>
  The cases of \<^verbatim>\<open>MessageParser_test.cpp\<close> on the model: those without base64 for every
  decoder, then \<^verbatim>\<open>MessageParser.header.base64\<close> and \<^verbatim>\<open>MessageParser.VT_embedded\<close> (the
  payload between the DCS final character and the string terminator) with the
  decoder for the standard alphabet, and a body whose base64 decoding fails.
\<close>

lemma parser_tests:
  "parse dec [] = \<lparr>message_headers = [], message_body = []\<rparr>"
  "header (parse dec ''name='') ''name'' = Some []"
  "header (parse dec ''name=value'') ''name'' = Some ''value''"
  "parse dec ''name=,name2='' =
     \<lparr>message_headers = [(''name'', []), (''name2'', [])], message_body = []\<rparr>"
  "parse dec ''name=value,name2=other'' =
     \<lparr>message_headers = [(''name'', ''value''), (''name2'', ''other'')], message_body = []\<rparr>"
  "parse dec ''name=,name2=other'' =
     \<lparr>message_headers = [(''name'', []), (''name2'', ''other'')], message_body = []\<rparr>"
  "parse dec ''name=some,name2='' =
     \<lparr>message_headers = [(''name'', ''some''), (''name2'', [])], message_body = []\<rparr>"
  "parse dec '',foo=text,,,bar=other,'' =
     \<lparr>message_headers = [(''foo'', ''text''), (''bar'', ''other'')], message_body = []\<rparr>"
  "parse dec '',,,foo=text,,,bar=other,,,'' =
     \<lparr>message_headers = [(''foo'', ''text''), (''bar'', ''other'')], message_body = []\<rparr>"
  "parse dec '';'' = \<lparr>message_headers = [], message_body = []\<rparr>"
  "parse dec '';foo'' = \<lparr>message_headers = [], message_body = ''foo''\<rparr>"
  "parse dec ''a=A,bee=eeeh;foo'' =
     \<lparr>message_headers = [(''a'', ''A''), (''bee'', ''eeeh'')], message_body = ''foo''\<rparr>"
  "parse dec (''a=A,bee=eeeh;'' @ [CHR 0x00, CHR 0x1B, CHR 0xFF]) =
     \<lparr>message_headers = [(''a'', ''A''), (''bee'', ''eeeh'')],
      message_body = [CHR 0x00, CHR 0x1B, CHR 0xFF]\<rparr>"
  "header (parse sample_base64 ''name=!GwAH'') ''name'' = Some [CHR 0x1B, CHR 0x00, CHR 0x07]"
  "parse sample_base64 ''a=foo,b=bar;!YWJj'' =
     \<lparr>message_headers = [(''a'', ''foo''), (''b'', ''bar'')], message_body = ''abc''\<rparr>"
  "parse sample_base64 ''a=foo;!Y;Jj'' =
     \<lparr>message_headers = [(''a'', ''foo'')], message_body = ''Y;Jj''\<rparr>"
  by (simp_all add: parser_eval base64_samples)


end
